theory Spec2Isabelle
  imports Complex_Main
begin

section \<open>The video gateway of main.py\<close>

text \<open>
  The service keeps one dictionary, \<open>video_requests_db\<close>, and two POST endpoints,
  \<open>/generate\<close> and \<open>/retrieve\<close>, that call the provider over HTTP. The model passes the
  dictionary explicitly, takes the provider as a function from the call made to what
  the HTTP library does on it, and takes \<open>uuid.uuid4()\<close> and \<open>datetime.now()\<close> as
  arguments. Every \<open>raise\<close> of the source is an \<open>Inl\<close> of the model.
\<close>

subsection \<open>JSON values and the Python operations used on them\<close>

text \<open>
  What \<open>response.json()\<close> returns: any JSON value. A float is the rational it denotes;
  an object is the list of its items (a decoded object has no key twice).
\<close>

datatype json =
    JNull
  | JBool bool
  | JInt int
  | JFloat rat
  | JStr string
  | JArr "json list"
  | JObj "(string \<times> json) list"

text \<open>
  Exceptions other than \<open>HTTPException\<close>. \<open>Timeout\<close> and \<open>ConnectionError\<close> are the
  two subclasses of \<open>requests.exceptions.RequestException\<close> the source names;
  \<open>RequestException m\<close> is any other one, with \<open>str(e) = m\<close>.
\<close>

datatype py_error =
    Timeout
  | ConnectionError
  | RequestException string
  | TypeError
  | KeyError
  | AttributeError
  | ValidationError
  | RequestValidationError
  | OtherException string

text \<open>The \<open>detail\<close> of an \<open>HTTPException\<close>: a literal, or \<open>f"<prefix>{str(e)}"\<close>.\<close>

datatype detail = Text string | Formatted string py_error

datatype exn = HTTPException int detail | Error py_error

fun starts_with :: "string \<Rightarrow> string \<Rightarrow> bool" where
  "starts_with [] s = True"
| "starts_with (p # ps) [] = False"
| "starts_with (p # ps) (c # cs) = (p = c \<and> starts_with ps cs)"

fun is_substring :: "string \<Rightarrow> string \<Rightarrow> bool" where
  "is_substring p [] = (p = [])"
| "is_substring p (c # cs) = (starts_with p (c # cs) \<or> is_substring p cs)"

text \<open>
  \<open>key in v\<close> for a string \<open>key\<close>: key membership on a dict, element membership on a
  list, substring on a string, \<open>TypeError\<close> on anything else.
\<close>

fun py_in :: "string \<Rightarrow> json \<Rightarrow> py_error + bool" where
  "py_in k (JObj kvs) = Inr (map_of kvs k \<noteq> None)"
| "py_in k (JArr xs) = Inr (JStr k \<in> set xs)"
| "py_in k (JStr s) = Inr (is_substring k s)"
| "py_in k _ = Inl TypeError"

text \<open>\<open>v[key]\<close> for a string \<open>key\<close>: only a dict can be indexed by a string.\<close>

fun py_getitem :: "json \<Rightarrow> string \<Rightarrow> py_error + json" where
  "py_getitem (JObj kvs) k = (case map_of kvs k of None \<Rightarrow> Inl KeyError | Some v \<Rightarrow> Inr v)"
| "py_getitem _ k = Inl TypeError"

text \<open>\<open>v.get(key, default)\<close>; \<open>v.get(key)\<close> is \<open>py_get v key JNull\<close>.\<close>

fun py_get :: "json \<Rightarrow> string \<Rightarrow> json \<Rightarrow> py_error + json" where
  "py_get (JObj kvs) k dflt = Inr (case map_of kvs k of None \<Rightarrow> dflt | Some v \<Rightarrow> v)"
| "py_get _ k dflt = Inl AttributeError"

text \<open>
  The test both endpoints make on the provider's body,
  \<open>"data" in result and key in result["data"]\<close>, followed by the reads
  \<open>result["data"]\<close> and \<open>result["data"][key]\<close>. \<open>Inr None\<close> is the \<open>else\<close> branch.
\<close>

definition data_field :: "json \<Rightarrow> string \<Rightarrow> py_error + (json \<times> json) option" where
  "data_field result key =
     (case py_in ''data'' result of
        Inl e \<Rightarrow> Inl e
      | Inr False \<Rightarrow> Inr None
      | Inr True \<Rightarrow>
          (case py_getitem result ''data'' of
             Inl e \<Rightarrow> Inl e
           | Inr d \<Rightarrow>
               (case py_in key d of
                  Inl e \<Rightarrow> Inl e
                | Inr False \<Rightarrow> Inr None
                | Inr True \<Rightarrow>
                    (case py_getitem d key of
                       Inl e \<Rightarrow> Inl e
                     | Inr v \<Rightarrow> Inr (Some (d, v))))))"

subsection \<open>What the runtime supplies\<close>

text \<open>
  The request and response models are pydantic models: constructing one validates
  every field. An \<open>Optional[str]\<close> field takes \<open>None\<close> and a \<open>str\<close> as they are; what it
  does with any other value (reject it, or turn it into a string) is the library's, and
  so is what \<open>str()\<close> prints for numbers, lists and dicts. These are parameters of the
  model.
\<close>

record runtime =
  str_coercion :: "json \<Rightarrow> string option"
  float_coercion :: "json \<Rightarrow> rat option"
  bool_coercion :: "json \<Rightarrow> bool option"
  int_coercion :: "json \<Rightarrow> int option"
  format_value :: "json \<Rightarrow> string"

text \<open>Validation of an \<open>Optional[str]\<close> field; the outer \<open>None\<close> is a \<open>ValidationError\<close>.\<close>

fun opt_str :: "runtime \<Rightarrow> json \<Rightarrow> string option option" where
  "opt_str rt JNull = Some None"
| "opt_str rt (JStr s) = Some (Some s)"
| "opt_str rt v = (case str_coercion rt v of None \<Rightarrow> None | Some s \<Rightarrow> Some (Some s))"

fun opt_float :: "runtime \<Rightarrow> json \<Rightarrow> rat option option" where
  "opt_float rt JNull = Some None"
| "opt_float rt (JFloat x) = Some (Some x)"
| "opt_float rt v = (case float_coercion rt v of None \<Rightarrow> None | Some x \<Rightarrow> Some (Some x))"

fun opt_bool :: "runtime \<Rightarrow> json \<Rightarrow> bool option option" where
  "opt_bool rt JNull = Some None"
| "opt_bool rt (JBool b) = Some (Some b)"
| "opt_bool rt v = (case bool_coercion rt v of None \<Rightarrow> None | Some b \<Rightarrow> Some (Some b))"

fun opt_int :: "runtime \<Rightarrow> json \<Rightarrow> int option option" where
  "opt_int rt JNull = Some None"
| "opt_int rt (JInt n) = Some (Some n)"
| "opt_int rt v = (case int_coercion rt v of None \<Rightarrow> None | Some n \<Rightarrow> Some (Some n))"

text \<open>Validation of a \<open>str\<close> field that is not optional: \<open>None\<close> is rejected.\<close>

fun req_str :: "runtime \<Rightarrow> json \<Rightarrow> string option" where
  "req_str rt JNull = None"
| "req_str rt (JStr s) = Some s"
| "req_str rt v = str_coercion rt v"

text \<open>The value of a key of a request body, or the field's default when the key is absent.\<close>

definition body_field :: "(string \<times> json) list \<Rightarrow> string \<Rightarrow> json \<Rightarrow> json" where
  "body_field kvs k dflt = (case map_of kvs k of None \<Rightarrow> dflt | Some v \<Rightarrow> v)"

text \<open>\<open>str(v)\<close> inside an f-string.\<close>

fun py_str :: "runtime \<Rightarrow> json \<Rightarrow> string" where
  "py_str rt (JStr s) = s"
| "py_str rt JNull = ''None''"
| "py_str rt (JBool b) = (if b then ''True'' else ''False'')"
| "py_str rt v = format_value rt v"

text \<open>\<open>a or b\<close> on an optional string: \<open>None\<close> and the empty string are false.\<close>

fun truthy :: "string option \<Rightarrow> string option" where
  "truthy None = None"
| "truthy (Some s) = (if s = [] then None else Some s)"

definition py_or :: "string option \<Rightarrow> string \<Rightarrow> string" where
  "py_or a b = (case truthy a of Some s \<Rightarrow> s | None \<Rightarrow> b)"

subsection \<open>Request and response models, the registry\<close>

record VideoGenerationRequest =
  script_text :: string
  template_id :: "string option"
  use_captions :: "bool option"
  avatar_id :: "string option"
  voice_id :: "string option"
  background_url :: "string option"
  title :: "string option"
  width :: "int option"
  height :: "int option"

text \<open>
  \<open>Field(..., min_length=1, max_length=5000)\<close> on \<open>script_text\<close>. A string of the model is
  the list of the characters that Python's \<open>len\<close> counts.
\<close>

definition script_text_valid :: "VideoGenerationRequest \<Rightarrow> bool" where
  "script_text_valid request =
     (1 \<le> length (script_text request) \<and> length (script_text request) \<le> 5000)"

record VideoGenerationResponse =
  gen_success :: bool
  gen_message :: string
  gen_request_id :: string
  gen_video_id :: "string option"
  gen_estimated_time :: "string option"

record VideoRetrievalRequest =
  req_request_id :: "string option"
  req_video_id :: "string option"

record VideoRetrievalResponse =
  ret_success :: bool
  ret_message :: string
  ret_request_id :: "string option"
  ret_video_id :: "string option"
  ret_status :: "string option"
  ret_video_url :: "string option"
  ret_caption_url :: "string option"
  ret_thumbnail_url :: "string option"
  ret_duration :: "rat option"
  ret_created_at :: "string option"

text \<open>
  A value of \<open>video_requests_db\<close>. \<open>video_id\<close> and \<open>status\<close> hold whatever the provider's
  body held; \<open>last_checked\<close> is absent until the first status query writes it.
\<close>

record video_record =
  rec_video_id :: json
  rec_script_text :: string
  rec_template_id :: string
  rec_use_captions :: "bool option"
  rec_avatar_id :: "string option"
  rec_voice_id :: "string option"
  rec_title :: "string option"
  rec_created_at :: string
  rec_status :: json
  rec_platform :: string
  rec_last_checked :: "string option"

text \<open>
  A Python dict keeps its items in insertion order; \<open>d[k] = v\<close> replaces the value of a
  key in place and appends a new key at the end.
\<close>

type_synonym registry_t = "(string \<times> video_record) list"

primrec dict_set :: "string \<Rightarrow> video_record \<Rightarrow> registry_t \<Rightarrow> registry_t" where
  "dict_set k v [] = [(k, v)]"
| "dict_set k v (p # ps) = (if fst p = k then (k, v) # ps else p # dict_set k v ps)"

text \<open>The calls made to the provider, in order (not in the source: a log kept to count them).\<close>

datatype provider_call =
    GenerateCall string VideoGenerationRequest
  | StatusCall json

text \<open>
  What the HTTP library does on a call: it raises, or it returns a response with a
  status code, a text and the outcome of \<open>response.json()\<close>.
\<close>

datatype json_outcome = Decoded json | DecodeFails py_error

datatype http_outcome = Raises py_error | Responds int string json_outcome

type_synonym provider = "provider_call \<Rightarrow> http_outcome"

record config =
  HEYGEN_API_KEY :: "string option"
  TEMPLATE_ID :: string

record state =
  video_requests_db :: registry_t
  provider_calls :: "provider_call list"

subsection \<open>HeyGenService\<close>

text \<open>The \<open>except\<close> clauses of both service methods, in their order.\<close>

fun request_except :: "py_error \<Rightarrow> exn" where
  "request_except Timeout = HTTPException 408 (Text ''Request timeout'')"
| "request_except ConnectionError = HTTPException 503 (Text ''Service unavailable'')"
| "request_except (RequestException m) =
     HTTPException 500 (Formatted ''Request failed: '' (RequestException m))"
| "request_except e = Error e"

text \<open>The \<open>try\<close> block of both service methods, on what the HTTP call did.\<close>

fun service_try :: "http_outcome \<Rightarrow> exn + json" where
  "service_try (Raises e) = Inl (request_except e)"
| "service_try (Responds code txt j) =
     (if code \<noteq> 200 then Inl (HTTPException code (Text (''HeyGen API error: '' @ txt)))
      else (case j of Decoded v \<Rightarrow> Inr v | DecodeFails e \<Rightarrow> Inl (request_except e)))"

definition service_generate_call :: "config \<Rightarrow> VideoGenerationRequest \<Rightarrow> provider_call" where
  "service_generate_call cfg request =
     GenerateCall (py_or (template_id request) (TEMPLATE_ID cfg)) request"

text \<open>\<open>get_heygen_service()\<close> returns a service exactly when the key is set and not empty.\<close>

definition service_configured :: "config \<Rightarrow> bool" where
  "service_configured cfg = (truthy (HEYGEN_API_KEY cfg) \<noteq> None)"

text \<open>The \<open>except\<close> clauses of both endpoints: \<open>HTTPException\<close> is re-raised, the rest wrapped.\<close>

fun endpoint_except :: "string \<Rightarrow> exn \<Rightarrow> exn" where
  "endpoint_except prefix (HTTPException code d) = HTTPException code d"
| "endpoint_except prefix (Error e) = HTTPException 500 (Formatted prefix e)"

subsection \<open>POST /generate\<close>

definition new_record ::
  "config \<Rightarrow> string \<Rightarrow> VideoGenerationRequest \<Rightarrow> json \<Rightarrow> video_record" where
  "new_record cfg now request video_id =
     \<lparr> rec_video_id = video_id,
       rec_script_text = script_text request,
       rec_template_id = py_or (template_id request) (TEMPLATE_ID cfg),
       rec_use_captions = use_captions request,
       rec_avatar_id = avatar_id request,
       rec_voice_id = voice_id request,
       rec_title = title request,
       rec_created_at = now,
       rec_status = JStr ''processing'',
       rec_platform = ''render'',
       rec_last_checked = None \<rparr>"

text \<open>The constructor call \<open>VideoGenerationResponse(...)\<close> of the success branch.\<close>

definition generation_response ::
  "runtime \<Rightarrow> string \<Rightarrow> json \<Rightarrow> py_error + VideoGenerationResponse" where
  "generation_response rt request_id video_id =
     (case opt_str rt video_id of
        None \<Rightarrow> Inl ValidationError
      | Some v \<Rightarrow>
          Inr \<lparr> gen_success = True,
                gen_message = ''Video generation initiated successfully'',
                gen_request_id = request_id,
                gen_video_id = v,
                gen_estimated_time = Some ''2-5 minutes'' \<rparr>)"

text \<open>
  The handler. \<open>request_id\<close> is the value of \<open>str(uuid.uuid4())\<close> and \<open>now\<close> that of
  \<open>datetime.now().isoformat()\<close>. The record is stored before the response is built.
\<close>

definition generate_video ::
  "config \<Rightarrow> runtime \<Rightarrow> string \<Rightarrow> string \<Rightarrow> provider \<Rightarrow> VideoGenerationRequest \<Rightarrow> state
     \<Rightarrow> (exn + VideoGenerationResponse) \<times> state" where
  "generate_video cfg rt request_id now prov request s =
     (if \<not> service_configured cfg then
        (Inl (HTTPException 500
           (Text ''Service not configured. Please set HEYGEN_API_KEY environment variable.'')), s)
      else
        let call = service_generate_call cfg request;
            s1 = s\<lparr>provider_calls := provider_calls s @ [call]\<rparr>;
            prefix = ''Video generation failed: ''
        in
        (case service_try (prov call) of
           Inl e \<Rightarrow> (Inl (endpoint_except prefix e), s1)
         | Inr result \<Rightarrow>
             (case data_field result ''video_id'' of
                Inl e \<Rightarrow> (Inl (HTTPException 500 (Formatted prefix e)), s1)
              | Inr None \<Rightarrow>
                  (Inl (HTTPException 500
                     (Text ''Unexpected response from video generation service'')), s1)
              | Inr (Some (d, video_id)) \<Rightarrow>
                  let s2 = s1\<lparr>video_requests_db :=
                             dict_set request_id (new_record cfg now request video_id)
                               (video_requests_db s1)\<rparr>
                  in
                  (case generation_response rt request_id video_id of
                     Inl e \<Rightarrow> (Inl (HTTPException 500 (Formatted prefix e)), s2)
                   | Inr resp \<Rightarrow> (Inr resp, s2)))))"

text \<open>
  The framework validates the request against the request model before the handler
  runs, and raises \<open>RequestValidationError\<close> without calling it otherwise. On a request
  whose fields have their types, what is left to validate is the length of
  \<open>script_text\<close>.
\<close>

definition post_generate ::
  "config \<Rightarrow> runtime \<Rightarrow> string \<Rightarrow> string \<Rightarrow> provider \<Rightarrow> VideoGenerationRequest \<Rightarrow> state
     \<Rightarrow> (exn + VideoGenerationResponse) \<times> state" where
  "post_generate cfg rt request_id now prov request s =
     (if script_text_valid request then generate_video cfg rt request_id now prov request s
      else (Inl (Error RequestValidationError), s))"

text \<open>
  The body of the request as it arrives: \<open>None\<close> when there is none or it is not JSON.
  The request model takes a JSON object; \<open>script_text\<close> is required and a string, every
  other field is optional, of its declared type, with its declared default. A body the
  model rejects gives \<open>None\<close>.
\<close>

definition parse_generation_request :: "runtime \<Rightarrow> json option \<Rightarrow> VideoGenerationRequest option" where
  "parse_generation_request rt body =
     (case body of
        Some (JObj kvs) \<Rightarrow>
          (case (req_str rt (body_field kvs ''script_text'' JNull),
                 opt_str rt (body_field kvs ''template_id'' JNull),
                 opt_bool rt (body_field kvs ''use_captions'' (JBool False)),
                 opt_str rt (body_field kvs ''avatar_id'' (JStr ''283a8bced1f841c7a9292a9212019165'')),
                 opt_str rt (body_field kvs ''voice_id'' (JStr ''fc3a1b6d218246d39ff5199ab147d6ee'')),
                 opt_str rt (body_field kvs ''background_url''
                   (JStr ''https://static.heygen.ai/tmp_resource/7fba946a-b927-4bc9-b754-84e28c5546da'')),
                 opt_str rt (body_field kvs ''title'' (JStr ''Render_API_Video'')),
                 opt_int rt (body_field kvs ''width'' (JInt 1280)),
                 opt_int rt (body_field kvs ''height'' (JInt 720))) of
             (Some st, Some tpl, Some cap, Some av, Some vo, Some bg, Some ti, Some w, Some h) \<Rightarrow>
               Some \<lparr> script_text = st, template_id = tpl, use_captions = cap, avatar_id = av,
                      voice_id = vo, background_url = bg, title = ti, width = w, height = h \<rparr>
           | _ \<Rightarrow> None)
      | _ \<Rightarrow> None)"

text \<open>The route \<open>POST /generate\<close>, from the body that arrives.\<close>

definition app_post_generate ::
  "config \<Rightarrow> runtime \<Rightarrow> string \<Rightarrow> string \<Rightarrow> provider \<Rightarrow> json option \<Rightarrow> state
     \<Rightarrow> (exn + VideoGenerationResponse) \<times> state" where
  "app_post_generate cfg rt request_id now prov body s =
     (case parse_generation_request rt body of
        None \<Rightarrow> (Inl (Error RequestValidationError), s)
      | Some request \<Rightarrow> post_generate cfg rt request_id now prov request s)"

subsection \<open>POST /retrieve\<close>

text \<open>The loop over \<open>video_requests_db.items()\<close>: the first record with this video id.\<close>

fun find_request_id :: "json \<Rightarrow> registry_t \<Rightarrow> string option" where
  "find_request_id v [] = None"
| "find_request_id v ((rid, d) # rest) =
     (if rec_video_id d = v then Some rid else find_request_id v rest)"

text \<open>
  The \<open>if request.request_id: ... elif request.video_id: ... else: ...\<close> chain, giving
  the local variables \<open>video_id\<close> and \<open>request_id\<close>.
\<close>

definition resolve_video ::
  "VideoRetrievalRequest \<Rightarrow> registry_t \<Rightarrow> exn + (json \<times> string option)" where
  "resolve_video request db =
     (case truthy (req_request_id request) of
        Some rid \<Rightarrow>
          (case map_of db rid of
             Some r \<Rightarrow> Inr (rec_video_id r, Some rid)
           | None \<Rightarrow> Inl (HTTPException 404 (Text ''Request ID not found'')))
      | None \<Rightarrow>
          (case truthy (req_video_id request) of
             Some v \<Rightarrow>
               Inr (JStr v,
                    (case find_request_id (JStr v) db of
                       Some rid \<Rightarrow> Some rid
                     | None \<Rightarrow> req_request_id request))
           | None \<Rightarrow>
               Inl (HTTPException 400 (Text ''Either request_id or video_id must be provided''))))"

text \<open>\<open>if request_id and request_id in video_requests_db:\<close> and the two assignments.\<close>

definition update_status :: "string option \<Rightarrow> json \<Rightarrow> string \<Rightarrow> registry_t \<Rightarrow> registry_t" where
  "update_status request_id status now db =
     (case truthy request_id of
        None \<Rightarrow> db
      | Some rid \<Rightarrow>
          (case map_of db rid of
             None \<Rightarrow> db
           | Some r \<Rightarrow> dict_set rid (r\<lparr>rec_status := status, rec_last_checked := Some now\<rparr>) db))"

text \<open>
  The five values \<open>response_data.update\<close> adds when the status is \<open>"completed"\<close>; a key
  that is not added takes the response model's default, \<open>None\<close>.
\<close>

definition completed_fields :: "json \<Rightarrow> json \<Rightarrow> py_error + (json \<times> json \<times> json \<times> json \<times> json)" where
  "completed_fields data status =
     (if status = JStr ''completed'' then
        (case (py_get data ''video_url'' JNull, py_get data ''caption_url'' JNull,
               py_get data ''thumbnail_url'' JNull, py_get data ''duration'' JNull,
               py_get data ''created_at'' JNull) of
           (Inr a, Inr b, Inr c, Inr d, Inr e) \<Rightarrow> Inr (a, b, c, d, e)
         | _ \<Rightarrow> Inl AttributeError)
      else Inr (JNull, JNull, JNull, JNull, JNull))"

definition response_message :: "runtime \<Rightarrow> json \<Rightarrow> json \<Rightarrow> py_error + string" where
  "response_message rt data status =
     (if status = JStr ''completed'' then Inr (''Video status: '' @ py_str rt status)
      else if status = JStr ''failed'' then
        (case py_get data ''error'' (JStr ''Unknown error'') of
           Inl e \<Rightarrow> Inl e
         | Inr v \<Rightarrow> Inr (''Video generation failed: '' @ py_str rt v))
      else Inr (''Video status: '' @ py_str rt status))"

text \<open>The constructor call \<open>VideoRetrievalResponse(**response_data)\<close>.\<close>

definition retrieval_response ::
  "runtime \<Rightarrow> string option \<Rightarrow> json \<Rightarrow> json \<Rightarrow> json \<Rightarrow> py_error + VideoRetrievalResponse" where
  "retrieval_response rt request_id video_id data status =
     (case completed_fields data status of
        Inl e \<Rightarrow> Inl e
      | Inr (vu, cu, tu, du, ca) \<Rightarrow>
          (case response_message rt data status of
             Inl e \<Rightarrow> Inl e
           | Inr msg \<Rightarrow>
               (case (opt_str rt video_id, opt_str rt status, opt_str rt vu, opt_str rt cu,
                      opt_str rt tu, opt_float rt du, opt_str rt ca) of
                  (Some vid', Some st', Some vu', Some cu', Some tu', Some du', Some ca') \<Rightarrow>
                    Inr \<lparr> ret_success = True,
                          ret_message = msg,
                          ret_request_id = request_id,
                          ret_video_id = vid',
                          ret_status = st',
                          ret_video_url = vu',
                          ret_caption_url = cu',
                          ret_thumbnail_url = tu',
                          ret_duration = du',
                          ret_created_at = ca' \<rparr>
                | _ \<Rightarrow> Inl ValidationError)))"

text \<open>The handler. The registry is written before the response is built.\<close>

definition retrieve_video ::
  "config \<Rightarrow> runtime \<Rightarrow> string \<Rightarrow> provider \<Rightarrow> VideoRetrievalRequest \<Rightarrow> state
     \<Rightarrow> (exn + VideoRetrievalResponse) \<times> state" where
  "retrieve_video cfg rt now prov request s =
     (if \<not> service_configured cfg then
        (Inl (HTTPException 500
           (Text ''Service not configured. Please set HEYGEN_API_KEY environment variable.'')), s)
      else
        (case resolve_video request (video_requests_db s) of
           Inl e \<Rightarrow> (Inl e, s)
         | Inr (video_id, request_id) \<Rightarrow>
             let s1 = s\<lparr>provider_calls := provider_calls s @ [StatusCall video_id]\<rparr>;
                 prefix = ''Video retrieval failed: ''
             in
             (case service_try (prov (StatusCall video_id)) of
                Inl e \<Rightarrow> (Inl (endpoint_except prefix e), s1)
              | Inr result \<Rightarrow>
                  (case data_field result ''status'' of
                     Inl e \<Rightarrow> (Inl (HTTPException 500 (Formatted prefix e)), s1)
                   | Inr None \<Rightarrow>
                       (Inl (HTTPException 500
                          (Text ''Unexpected response from video status service'')), s1)
                   | Inr (Some (data, status)) \<Rightarrow>
                       let s2 = s1\<lparr>video_requests_db :=
                                  update_status request_id status now (video_requests_db s1)\<rparr>
                       in
                       (case retrieval_response rt request_id video_id data status of
                          Inl e \<Rightarrow> (Inl (HTTPException 500 (Formatted prefix e)), s2)
                        | Inr resp \<Rightarrow> (Inr resp, s2))))))"

text \<open>
  The request model of \<open>/retrieve\<close>: a JSON object whose \<open>request_id\<close> and \<open>video_id\<close>,
  when present, are strings or null.
\<close>

definition parse_retrieval_request :: "runtime \<Rightarrow> json option \<Rightarrow> VideoRetrievalRequest option" where
  "parse_retrieval_request rt body =
     (case body of
        Some (JObj kvs) \<Rightarrow>
          (case (opt_str rt (body_field kvs ''request_id'' JNull),
                 opt_str rt (body_field kvs ''video_id'' JNull)) of
             (Some rid, Some vid) \<Rightarrow> Some \<lparr> req_request_id = rid, req_video_id = vid \<rparr>
           | _ \<Rightarrow> None)
      | _ \<Rightarrow> None)"

text \<open>The route \<open>POST /retrieve\<close>, from the body that arrives.\<close>

definition app_post_retrieve ::
  "config \<Rightarrow> runtime \<Rightarrow> string \<Rightarrow> provider \<Rightarrow> json option \<Rightarrow> state
     \<Rightarrow> (exn + VideoRetrievalResponse) \<times> state" where
  "app_post_retrieve cfg rt now prov body s =
     (case parse_retrieval_request rt body of
        None \<Rightarrow> (Inl (Error RequestValidationError), s)
      | Some request \<Rightarrow> retrieve_video cfg rt now prov request s)"

subsection \<open>The management routes and the exception handlers\<close>

definition list_requests :: "state \<Rightarrow> nat \<times> registry_t" where
  "list_requests s = (length (video_requests_db s), video_requests_db s)"

definition get_request_details :: "string \<Rightarrow> state \<Rightarrow> exn + video_record" where
  "get_request_details request_id s =
     (case map_of (video_requests_db s) request_id of
        None \<Rightarrow> Inl (HTTPException 404 (Text ''Request not found''))
      | Some r \<Rightarrow> Inr r)"

text \<open>A JSON error body: its keys in order, each with its value.\<close>

datatype field = FBool bool | FInt int | FStr string | FDetail detail | FErrors

definition http_exception_handler :: "int \<Rightarrow> detail \<Rightarrow> int \<times> (string \<times> field) list" where
  "http_exception_handler status_code d =
     (status_code,
      [(''success'', FBool False), (''message'', FDetail d),
       (''status_code'', FInt status_code), (''platform'', FStr ''Render'')])"

definition general_exception_handler :: "py_error \<Rightarrow> int \<times> (string \<times> field) list" where
  "general_exception_handler e =
     (500,
      [(''success'', FBool False), (''message'', FDetail (Text ''Internal server error'')),
       (''status_code'', FInt 500), (''platform'', FStr ''Render'')])"

text \<open>
  The source registers no handler for \<open>RequestValidationError\<close>, so the framework's own
  answers it, on \<open>/generate\<close> and on \<open>/retrieve\<close> alike: status 422 and a body whose only
  key is \<open>detail\<close>, the list of errors.
\<close>

definition request_validation_exception_handler :: "int \<times> (string \<times> field) list" where
  "request_validation_exception_handler = (422, [(''detail'', FErrors)])"

text \<open>The handler chosen for an exception that leaves a route.\<close>

fun respond :: "exn \<Rightarrow> int \<times> (string \<times> field) list" where
  "respond (HTTPException status_code d) = http_exception_handler status_code d"
| "respond (Error RequestValidationError) = request_validation_exception_handler"
| "respond (Error e) = general_exception_handler e"

subsection \<open>Sequences of requests\<close>

datatype operation =
    PostGenerate string string provider VideoGenerationRequest
  | PostRetrieve string provider VideoRetrievalRequest
  | ListRequests
  | GetRequest string

fun step :: "config \<Rightarrow> runtime \<Rightarrow> operation \<Rightarrow> state \<Rightarrow> state" where
  "step cfg rt (PostGenerate request_id now prov request) s =
     snd (post_generate cfg rt request_id now prov request s)"
| "step cfg rt (PostRetrieve now prov request) s = snd (retrieve_video cfg rt now prov request s)"
| "step cfg rt ListRequests s = s"
| "step cfg rt (GetRequest request_id) s = s"

fun run :: "config \<Rightarrow> runtime \<Rightarrow> operation list \<Rightarrow> state \<Rightarrow> state" where
  "run cfg rt [] s = s"
| "run cfg rt (op # ops) s = run cfg rt ops (step cfg rt op s)"

text \<open>
  \<open>uuid.uuid4()\<close> is taken to return an identifier that is not a key of the registry
  when the generation request is served.
\<close>

fun fresh_id :: "operation \<Rightarrow> state \<Rightarrow> bool" where
  "fresh_id (PostGenerate request_id now prov request) s =
     (map_of (video_requests_db s) request_id = None)"
| "fresh_id _ s = True"

fun fresh_ids :: "config \<Rightarrow> runtime \<Rightarrow> operation list \<Rightarrow> state \<Rightarrow> bool" where
  "fresh_ids cfg rt [] s = True"
| "fresh_ids cfg rt (op # ops) s = (fresh_id op s \<and> fresh_ids cfg rt ops (step cfg rt op s))"

text \<open>The fields of a record that the specification calls immutable.\<close>

definition immutable_fields ::
  "video_record \<Rightarrow> json \<times> string \<times> string \<times> bool option \<times> string option \<times> string option
     \<times> string option \<times> string" where
  "immutable_fields r =
     (rec_video_id r, rec_script_text r, rec_template_id r, rec_use_captions r,
      rec_avatar_id r, rec_voice_id r, rec_title r, rec_created_at r)"

text \<open>A body has the path \<open>data.<key>\<close>: it is an object whose \<open>data\<close> is an object with that key.\<close>

definition has_data_key :: "json \<Rightarrow> string \<Rightarrow> bool" where
  "has_data_key body key =
     (case body of
        JObj items \<Rightarrow>
          (case map_of items ''data'' of
             Some (JObj d) \<Rightarrow> map_of d key \<noteq> None
           | _ \<Rightarrow> False)
      | _ \<Rightarrow> False)"

text \<open>
  The provider call fails for an endpoint that needs \<open>data.<key>\<close>: the HTTP library
  raises (a timeout, a connection failure, anything else), the status is not 200, the
  body does not decode, or the decoded body has no \<open>data.<key>\<close>.
\<close>

fun provider_failure :: "http_outcome \<Rightarrow> string \<Rightarrow> bool" where
  "provider_failure (Raises e) key = True"
| "provider_failure (Responds code txt (DecodeFails e)) key = True"
| "provider_failure (Responds code txt (Decoded body)) key =
     (code \<noteq> 200 \<or> \<not> has_data_key body key)"

subsection \<open>Concrete inputs\<close>

definition demo_config :: config where
  "demo_config = \<lparr> HEYGEN_API_KEY = Some ''key'', TEMPLATE_ID = ''tpl'' \<rparr>"

text \<open>A runtime whose models accept only values of the declared type.\<close>

definition strict_runtime :: runtime where
  "strict_runtime =
     \<lparr> str_coercion = (\<lambda>v. None), float_coercion = (\<lambda>v. None),
       bool_coercion = (\<lambda>v. None), int_coercion = (\<lambda>v. None), format_value = (\<lambda>v. ''?'') \<rparr>"

definition demo_request :: VideoGenerationRequest where
  "demo_request =
     \<lparr> script_text = ''Hello world'', template_id = None, use_captions = Some False,
       avatar_id = Some ''a1'', voice_id = Some ''v1'', background_url = None,
       title = Some ''Render_API_Video'', width = Some 1280, height = Some 720 \<rparr>"

definition empty_state :: state where
  "empty_state = \<lparr> video_requests_db = [], provider_calls = [] \<rparr>"

text \<open>A provider stub that answers every call with the same body.\<close>

definition stub :: "json \<Rightarrow> provider" where
  "stub body call = Responds 200 [] (Decoded body)"

definition generated_body :: "string \<Rightarrow> json" where
  "generated_body vid = JObj [(''data'', JObj [(''video_id'', JStr vid)])]"

definition status_body :: "(string \<times> json) list \<Rightarrow> json" where
  "status_body d = JObj [(''data'', JObj d)]"

definition demo_record :: video_record where
  "demo_record = new_record demo_config ''t0'' demo_request (JStr ''v123'')"

definition demo_state :: state where
  "demo_state = \<lparr> video_requests_db = [(''r1'', demo_record)], provider_calls = [] \<rparr>"

text \<open>Bodies of the status endpoint, and a retrieval by request id.\<close>

definition completed_data :: "(string \<times> json) list" where
  "completed_data =
     [(''status'', JStr ''completed''), (''video_url'', JStr ''https://cdn/v.mp4''),
      (''caption_url'', JNull), (''duration'', JFloat 12), (''created_at'', JStr ''2024-01-01'')]"

definition failed_data :: "(string \<times> json) list" where
  "failed_data = [(''status'', JStr ''failed''), (''error'', JStr ''X'')]"

definition by_request_id :: "string \<Rightarrow> VideoRetrievalRequest" where
  "by_request_id rid = \<lparr>req_request_id = Some rid, req_video_id = None\<rparr>"

definition processing_data :: "(string \<times> json) list" where
  "processing_data =
     [(''status'', JStr ''processing''), (''video_url'', JStr ''https://cdn/v.mp4''),
      (''duration'', JFloat 12)]"

text \<open>A generation under a new identifier, then a status query for the first record.\<close>

definition demo_ops :: "operation list" where
  "demo_ops =
     [PostGenerate ''r2'' ''t1'' (stub (generated_body ''v999'')) demo_request,
      ListRequests,
      PostRetrieve ''t2'' (stub (status_body completed_data)) (by_request_id ''r1'')]"

text \<open>Request bodies: a number where \<open>request_id\<close> is declared a string, an empty script.\<close>

definition wrong_type_body :: "json option" where
  "wrong_type_body = Some (JObj [(''request_id'', JInt 123)])"

definition empty_script_body :: "json option" where
  "empty_script_body = Some (JObj [(''script_text'', JStr [])])"

section \<open>Properties\<close>

subsection \<open>The dictionary and the body test\<close>

lemma dict_set_fresh: "map_of db k = None \<Longrightarrow> dict_set k v db = db @ [(k, v)]"
  by (induction db) (auto split: if_splits)

lemma map_of_dict_set: "map_of (dict_set k v db) = (map_of db)(k \<mapsto> v)"
  by (induction db) auto

lemma keys_dict_set_present: "map_of db k = Some r \<Longrightarrow> map fst (dict_set k v db) = map fst db"
  by (induction db) (auto split: if_splits)

lemma set_keys_dict_set: "fst ` set (dict_set k v db) = insert k (fst ` set db)"
  by (induction db) auto

lemma distinct_dict_set: "distinct (map fst db) \<Longrightarrow> distinct (map fst (dict_set k v db))"
  by (induction db) (auto simp: set_keys_dict_set)

lemma data_field_present:
  "map_of items ''data'' = Some (JObj d) \<Longrightarrow> map_of d key = Some v
     \<Longrightarrow> data_field (JObj items) key = Inr (Some (JObj d, v))"
  by (simp add: data_field_def)

lemma data_field_missing:
  "\<not> has_data_key body key \<Longrightarrow> data_field body key = Inr None \<or> (\<exists>e. data_field body key = Inl e)"
  by (cases body) (auto simp: data_field_def has_data_key_def split: json.splits option.splits sum.splits bool.splits)

lemma py_getitem_Inr:
  "py_getitem j k = Inr v \<Longrightarrow> \<exists>kvs. j = JObj kvs \<and> map_of kvs k = Some v"
  by (cases j) (auto split: option.splits)

lemma data_field_Some:
  "data_field body key = Inr (Some (data, v)) \<Longrightarrow>
     \<exists>items d. body = JObj items \<and> map_of items ''data'' = Some (JObj d) \<and> data = JObj d \<and> map_of d key = Some v"
  by (auto simp: data_field_def split: sum.splits bool.splits dest!: py_getitem_Inr)

lemma endpoint_except_http: "\<exists>code d. endpoint_except prefix e = HTTPException code d"
  by (cases e) auto

subsection \<open>Generation\<close>

lemma generate_video_success:
  assumes "service_configured cfg"
    and "prov (service_generate_call cfg request) = Responds 200 txt (Decoded (JObj items))"
    and "map_of items ''data'' = Some (JObj d)"
    and "map_of d ''video_id'' = Some (JStr vid)"
  shows "generate_video cfg rt request_id now prov request s =
      (Inr \<lparr> gen_success = True,
              gen_message = ''Video generation initiated successfully'',
              gen_request_id = request_id,
              gen_video_id = Some vid,
              gen_estimated_time = Some ''2-5 minutes'' \<rparr>,
       s\<lparr> provider_calls := provider_calls s @ [service_generate_call cfg request],
           video_requests_db :=
             dict_set request_id (new_record cfg now request (JStr vid)) (video_requests_db s) \<rparr>)"
  using assms
  by (simp add: generate_video_def Let_def data_field_present generation_response_def)

lemma generate_video_error_http:
  "fst (generate_video cfg rt request_id now prov request s) = Inl e \<Longrightarrow>
     \<exists>code d. e = HTTPException code d"
  using endpoint_except_http
  by (fastforce simp: generate_video_def Let_def
        split: if_splits sum.splits option.splits prod.splits)

text \<open>
  Claim C1. A valid generation request, served while the service is configured, whose
  provider call answers 200 with a body holding a string at \<open>data.video_id\<close>, and whose
  fresh \<open>request_id\<close> is not yet a key: the registry gains exactly one record, appended
  under that \<open>request_id\<close>, with the provider's video id and status \<open>"processing"\<close>; the
  response is a success carrying the \<open>request_id\<close>, the video id and the estimated time
  \<open>"2-5 minutes"\<close>; one provider call was made.
\<close>

theorem generate_inserts_one_record:
  assumes "script_text_valid request"
    and "service_configured cfg"
    and "prov (service_generate_call cfg request) = Responds 200 txt (Decoded (JObj items))"
    and "map_of items ''data'' = Some (JObj d)"
    and "map_of d ''video_id'' = Some (JStr vid)"
    and "map_of (video_requests_db s) request_id = None"
  shows "post_generate cfg rt request_id now prov request s =
      (Inr \<lparr> gen_success = True,
              gen_message = ''Video generation initiated successfully'',
              gen_request_id = request_id,
              gen_video_id = Some vid,
              gen_estimated_time = Some ''2-5 minutes'' \<rparr>,
       s\<lparr> provider_calls := provider_calls s @ [service_generate_call cfg request],
           video_requests_db :=
             video_requests_db s @ [(request_id, new_record cfg now request (JStr vid))] \<rparr>)
     \<and> rec_video_id (new_record cfg now request (JStr vid)) = JStr vid
     \<and> rec_status (new_record cfg now request (JStr vid)) = JStr ''processing''"
  using assms
    generate_video_success [where prov = prov and cfg = cfg and request = request, OF assms(2-5)]
  by (simp add: post_generate_def dict_set_fresh new_record_def)

theorem generate_inserts_one_record_witness:
  "script_text_valid demo_request \<and> service_configured demo_config
   \<and> map_of (video_requests_db empty_state) ''r1'' = None
   \<and> post_generate demo_config strict_runtime ''r1'' ''t0'' (stub (generated_body ''v123''))
        demo_request empty_state =
      (Inr \<lparr> gen_success = True,
              gen_message = ''Video generation initiated successfully'',
              gen_request_id = ''r1'',
              gen_video_id = Some ''v123'',
              gen_estimated_time = Some ''2-5 minutes'' \<rparr>,
       \<lparr> video_requests_db = [(''r1'', demo_record)],
         provider_calls = [GenerateCall ''tpl'' demo_request] \<rparr>)"
proof -
  have v: "script_text_valid demo_request"
    by (simp add: script_text_valid_def demo_request_def)
  have c: "service_configured demo_config"
    by (simp add: service_configured_def demo_config_def)
  have p: "stub (generated_body ''v123'') (service_generate_call demo_config demo_request) =
      Responds 200 [] (Decoded (JObj [(''data'', JObj [(''video_id'', JStr ''v123'')])]))"
    by (simp add: stub_def generated_body_def)
  have f: "map_of (video_requests_db empty_state) ''r1'' = None"
    by (simp add: empty_state_def)
  have call: "service_generate_call demo_config demo_request = GenerateCall ''tpl'' demo_request"
    by (simp add: service_generate_call_def py_or_def demo_config_def demo_request_def)
  show ?thesis
    using v c f call
      generate_inserts_one_record [where prov = "stub (generated_body ''v123'')"
        and cfg = demo_config and request = demo_request and s = empty_state
        and request_id = "''r1''" and d = "[(''video_id'', JStr ''v123'')]" and vid = "''v123''"
        and rt = strict_runtime and now = "''t0''", OF v c p _ _ f]
    by (simp add: empty_state_def demo_record_def)
qed

text \<open>
  Claim C4. A generation request whose \<open>script_text\<close> has length 0 or more than 5000 is
  rejected with \<open>RequestValidationError\<close>, answered with status 422, and the state is as
  before: no provider call is logged. With a length from 1 to 5000 the validation
  passes: the handler runs and the answer is not a validation error.
\<close>

theorem script_text_length_checked:
  "(length (script_text request) = 0 \<or> 5000 < length (script_text request) \<longrightarrow>
      post_generate cfg rt request_id now prov request s = (Inl (Error RequestValidationError), s)
      \<and> provider_calls (snd (post_generate cfg rt request_id now prov request s)) = provider_calls s
      \<and> fst (respond (Error RequestValidationError)) = 422)
   \<and> (1 \<le> length (script_text request) \<and> length (script_text request) \<le> 5000 \<longrightarrow>
      post_generate cfg rt request_id now prov request s =
        generate_video cfg rt request_id now prov request s
      \<and> fst (post_generate cfg rt request_id now prov request s) \<noteq>
          Inl (Error RequestValidationError))"
proof (intro conjI impI)
  assume a: "1 \<le> length (script_text request) \<and> length (script_text request) \<le> 5000"
  then show eq: "post_generate cfg rt request_id now prov request s =
        generate_video cfg rt request_id now prov request s"
    by (simp add: post_generate_def script_text_valid_def)
  show "fst (post_generate cfg rt request_id now prov request s) \<noteq>
      Inl (Error RequestValidationError)"
    using generate_video_error_http [of cfg rt request_id now prov request s] eq by auto
qed (auto simp: post_generate_def script_text_valid_def request_validation_exception_handler_def)

theorem script_text_length_checked_witness:
  "length (script_text (demo_request\<lparr>script_text := []\<rparr>)) = 0
   \<and> post_generate demo_config strict_runtime ''r1'' ''t0'' (stub (generated_body ''v123''))
        (demo_request\<lparr>script_text := []\<rparr>) empty_state =
      (Inl (Error RequestValidationError), empty_state)
   \<and> provider_calls (snd (post_generate demo_config strict_runtime ''r1'' ''t0''
        (stub (generated_body ''v123'')) (demo_request\<lparr>script_text := []\<rparr>) empty_state)) = []
   \<and> 1 \<le> length (script_text demo_request) \<and> length (script_text demo_request) \<le> 5000
   \<and> fst (post_generate demo_config strict_runtime ''r1'' ''t0'' (stub (generated_body ''v123''))
        demo_request empty_state) \<noteq> Inl (Error RequestValidationError)"
proof -
  have e: "length (script_text (demo_request\<lparr>script_text := []\<rparr>)) = 0"
    by simp
  have v: "1 \<le> length (script_text demo_request) \<and> length (script_text demo_request) \<le> 5000"
    by (simp add: demo_request_def)
  have p: "provider_calls empty_state = []"
    by (simp add: empty_state_def)
  show ?thesis
    using e v p
      script_text_length_checked [of "demo_request\<lparr>script_text := []\<rparr>" demo_config
        strict_runtime "''r1''" "''t0''" "stub (generated_body ''v123'')" empty_state]
      script_text_length_checked [of demo_request demo_config
        strict_runtime "''r1''" "''t0''" "stub (generated_body ''v123'')" empty_state]
    by auto
qed

subsection \<open>Failure paths\<close>

lemma service_try_failure:
  "provider_failure out key \<Longrightarrow>
     (\<exists>e. service_try out = Inl e)
     \<or> (\<exists>body. service_try out = Inr body \<and> \<not> has_data_key body key)"
  by (cases "(out, key)" rule: provider_failure.cases) auto

lemma generate_video_failure:
  assumes "service_configured cfg"
    and "provider_failure (prov (service_generate_call cfg request)) ''video_id''"
  shows "\<exists>code d. generate_video cfg rt request_id now prov request s =
      (Inl (HTTPException code d),
       s\<lparr>provider_calls := provider_calls s @ [service_generate_call cfg request]\<rparr>)"
proof -
  from service_try_failure [OF assms(2)]
  consider (raised) e where "service_try (prov (service_generate_call cfg request)) = Inl e"
    | (body) body where "service_try (prov (service_generate_call cfg request)) = Inr body"
        "\<not> has_data_key body ''video_id''"
    by blast
  then show ?thesis
  proof cases
    case raised
    then show ?thesis
      using assms(1) endpoint_except_http [of "''Video generation failed: ''" e]
      by (auto simp: generate_video_def Let_def)
  next
    case body
    then show ?thesis
      using assms(1) data_field_missing [OF body(2)]
      by (auto simp: generate_video_def Let_def)
  qed
qed

lemma retrieve_video_failure:
  assumes "service_configured cfg"
    and "resolve_video rq (video_requests_db s) = Inr (video_id, rid)"
    and "provider_failure (prov (StatusCall video_id)) ''status''"
  shows "\<exists>code d. retrieve_video cfg rt now prov rq s =
      (Inl (HTTPException code d), s\<lparr>provider_calls := provider_calls s @ [StatusCall video_id]\<rparr>)"
proof -
  from service_try_failure [OF assms(3)]
  consider (raised) e where "service_try (prov (StatusCall video_id)) = Inl e"
    | (body) body where "service_try (prov (StatusCall video_id)) = Inr body"
        "\<not> has_data_key body ''status''"
    by blast
  then show ?thesis
  proof cases
    case raised
    then show ?thesis
      using assms(1,2) endpoint_except_http [of "''Video retrieval failed: ''" e]
      by (auto simp: retrieve_video_def Let_def)
  next
    case body
    then show ?thesis
      using assms(1,2) data_field_missing [OF body(2)]
      by (auto simp: retrieve_video_def Let_def)
  qed
qed

text \<open>
  Claim C3. When the provider call of a generation fails (the HTTP library raises, as on
  a timeout or a connection failure; the status is not 200; the body does not decode or
  has no \<open>data.video_id\<close>), and when the provider call of a retrieval fails in the same
  ways (no \<open>data.status\<close>), the handler raises an \<open>HTTPException\<close>, the registry is the
  one before the call, and the provider log has grown by exactly the one call: nothing
  is retried.
\<close>

theorem failure_paths_keep_registry:
  "(service_configured cfg
      \<and> provider_failure (prov (service_generate_call cfg request)) ''video_id'' \<longrightarrow>
    (\<exists>code d. generate_video cfg rt request_id now prov request s =
       (Inl (HTTPException code d),
        s\<lparr>provider_calls := provider_calls s @ [service_generate_call cfg request]\<rparr>))
    \<and> video_requests_db (snd (generate_video cfg rt request_id now prov request s)) =
        video_requests_db s)
   \<and> (service_configured cfg
      \<and> resolve_video rq (video_requests_db s) = Inr (video_id, rid)
      \<and> provider_failure (prov' (StatusCall video_id)) ''status'' \<longrightarrow>
    (\<exists>code d. retrieve_video cfg rt now' prov' rq s =
       (Inl (HTTPException code d),
        s\<lparr>provider_calls := provider_calls s @ [StatusCall video_id]\<rparr>))
    \<and> video_requests_db (snd (retrieve_video cfg rt now' prov' rq s)) = video_requests_db s)"
proof (intro conjI impI)
  assume a: "service_configured cfg
      \<and> provider_failure (prov (service_generate_call cfg request)) ''video_id''"
  then obtain code d where g: "generate_video cfg rt request_id now prov request s =
       (Inl (HTTPException code d),
        s\<lparr>provider_calls := provider_calls s @ [service_generate_call cfg request]\<rparr>)"
    using generate_video_failure by blast
  then show "\<exists>code d. generate_video cfg rt request_id now prov request s =
       (Inl (HTTPException code d),
        s\<lparr>provider_calls := provider_calls s @ [service_generate_call cfg request]\<rparr>)"
    by blast
  show "video_requests_db (snd (generate_video cfg rt request_id now prov request s)) =
        video_requests_db s"
    by (simp add: g)
next
  assume a: "service_configured cfg
      \<and> resolve_video rq (video_requests_db s) = Inr (video_id, rid)
      \<and> provider_failure (prov' (StatusCall video_id)) ''status''"
  then obtain code d where g: "retrieve_video cfg rt now' prov' rq s =
       (Inl (HTTPException code d),
        s\<lparr>provider_calls := provider_calls s @ [StatusCall video_id]\<rparr>)"
    using retrieve_video_failure by blast
  then show "\<exists>code d. retrieve_video cfg rt now' prov' rq s =
       (Inl (HTTPException code d),
        s\<lparr>provider_calls := provider_calls s @ [StatusCall video_id]\<rparr>)"
    by blast
  show "video_requests_db (snd (retrieve_video cfg rt now' prov' rq s)) = video_requests_db s"
    by (simp add: g)
qed

theorem failure_paths_keep_registry_witness:
  "service_configured demo_config
   \<and> provider_failure (Raises Timeout) ''video_id''
   \<and> generate_video demo_config strict_runtime ''r2'' ''t1'' (\<lambda>c. Raises Timeout)
        demo_request demo_state =
      (Inl (HTTPException 408 (Text ''Request timeout'')),
       demo_state\<lparr>provider_calls := [GenerateCall ''tpl'' demo_request]\<rparr>)
   \<and> resolve_video \<lparr>req_request_id = Some ''r1'', req_video_id = None\<rparr>
        (video_requests_db demo_state) = Inr (JStr ''v123'', Some ''r1'')
   \<and> provider_failure (stub (status_body [(''state'', JStr ''done'')]) (StatusCall (JStr ''v123'')))
        ''status''
   \<and> retrieve_video demo_config strict_runtime ''t1'' (stub (status_body [(''state'', JStr ''done'')]))
        \<lparr>req_request_id = Some ''r1'', req_video_id = None\<rparr> demo_state =
      (Inl (HTTPException 500 (Text ''Unexpected response from video status service'')),
       demo_state\<lparr>provider_calls := [StatusCall (JStr ''v123'')]\<rparr>)
   \<and> video_requests_db (snd (retrieve_video demo_config strict_runtime ''t1''
        (stub (status_body [(''state'', JStr ''done'')]))
        \<lparr>req_request_id = Some ''r1'', req_video_id = None\<rparr> demo_state)) =
      [(''r1'', demo_record)]"
proof -
  have c: "service_configured demo_config"
    by (simp add: service_configured_def demo_config_def)
  have f: "provider_failure (Raises Timeout) ''video_id''"
    by simp
  have r: "resolve_video \<lparr>req_request_id = Some ''r1'', req_video_id = None\<rparr>
        (video_requests_db demo_state) = Inr (JStr ''v123'', Some ''r1'')"
    by (simp add: resolve_video_def demo_state_def demo_record_def new_record_def)
  have f': "provider_failure
      (stub (status_body [(''state'', JStr ''done'')]) (StatusCall (JStr ''v123''))) ''status''"
    by (simp add: stub_def status_body_def has_data_key_def)
  have g: "generate_video demo_config strict_runtime ''r2'' ''t1'' (\<lambda>c. Raises Timeout)
        demo_request demo_state =
      (Inl (HTTPException 408 (Text ''Request timeout'')),
       demo_state\<lparr>provider_calls := [GenerateCall ''tpl'' demo_request]\<rparr>)"
    using c
    by (simp add: generate_video_def service_generate_call_def py_or_def demo_config_def
        demo_request_def demo_state_def)
  have q: "retrieve_video demo_config strict_runtime ''t1''
        (stub (status_body [(''state'', JStr ''done'')]))
        \<lparr>req_request_id = Some ''r1'', req_video_id = None\<rparr> demo_state =
      (Inl (HTTPException 500 (Text ''Unexpected response from video status service'')),
       demo_state\<lparr>provider_calls := [StatusCall (JStr ''v123'')]\<rparr>)"
    using c r
    by (simp add: retrieve_video_def stub_def status_body_def data_field_def demo_state_def)
  have db: "video_requests_db demo_state = [(''r1'', demo_record)]"
    by (simp add: demo_state_def)
  show ?thesis
    using c f r f' g q db
      failure_paths_keep_registry [of demo_config "\<lambda>c. Raises Timeout" demo_request
        strict_runtime "''r2''" "''t1''" demo_state
        "\<lparr>req_request_id = Some ''r1'', req_video_id = None\<rparr>" "JStr ''v123''" "Some ''r1''"
        "stub (status_body [(''state'', JStr ''done'')])" "''t1''"]
    by simp
qed

text \<open>
  The remaining failures. A handler that raises has left the registry as it was unless
  the exception is the one that wraps a failure of the response constructor: the
  source writes the registry before it builds the response, so when the response model
  rejects a value the write has already happened.
\<close>

lemma generate_video_error_registry:
  assumes "fst (generate_video cfg rt request_id now prov request s) = Inl e"
  shows "video_requests_db (snd (generate_video cfg rt request_id now prov request s)) =
      video_requests_db s
    \<or> e = HTTPException 500 (Formatted ''Video generation failed: '' ValidationError)"
  using assms
  by (auto simp: generate_video_def Let_def generation_response_def
      split: if_splits sum.splits option.splits prod.splits)

lemma retrieve_video_error_registry:
  assumes "fst (retrieve_video cfg rt now prov rq s) = Inl e"
  shows "video_requests_db (snd (retrieve_video cfg rt now prov rq s)) = video_requests_db s
    \<or> (\<exists>x. e = HTTPException 500 (Formatted ''Video retrieval failed: '' x)
          \<and> (\<exists>rid v d st. retrieval_response rt rid v d st = Inl x))"
  using assms
  by (auto simp: retrieve_video_def Let_def
      split: if_splits sum.splits option.splits prod.splits)

lemma rejected_response_after_write:
  "retrieve_video demo_config strict_runtime ''t1'' (stub (status_body [(''status'', JArr [])]))
     (by_request_id ''r1'') demo_state =
   (Inl (HTTPException 500 (Formatted ''Video retrieval failed: '' ValidationError)),
    \<lparr> video_requests_db =
        [(''r1'', demo_record\<lparr>rec_status := JArr [], rec_last_checked := Some ''t1''\<rparr>)],
      provider_calls = [StatusCall (JStr ''v123'')] \<rparr>)"
  by (simp add: retrieve_video_def service_configured_def demo_config_def resolve_video_def
      by_request_id_def demo_record_def new_record_def
      stub_def status_body_def data_field_def demo_state_def strict_runtime_def
      update_status_def retrieval_response_def completed_fields_def response_message_def)

subsection \<open>Insertion under a key that exists\<close>

text \<open>
  Claim C2, as the code has it. The only insertion is the assignment
  \<open>video_requests_db[request_id] = {...}\<close> of the generation handler, and there is no
  duplicate-key error: when \<open>request_id\<close> is already a key, the generation succeeds, the
  key now maps to the new record, the keys and their order are unchanged, and every
  other key maps to what it mapped to before.
\<close>

theorem insert_replaces_existing_record:
  assumes "map_of (video_requests_db s) request_id = Some old"
    and "service_configured cfg"
    and "prov (service_generate_call cfg request) = Responds 200 txt (Decoded (JObj items))"
    and "map_of items ''data'' = Some (JObj d)"
    and "map_of d ''video_id'' = Some (JStr vid)"
  shows "fst (generate_video cfg rt request_id now prov request s) =
      Inr \<lparr> gen_success = True,
            gen_message = ''Video generation initiated successfully'',
            gen_request_id = request_id,
            gen_video_id = Some vid,
            gen_estimated_time = Some ''2-5 minutes'' \<rparr>
    \<and> map_of (video_requests_db (snd (generate_video cfg rt request_id now prov request s)))
        request_id = Some (new_record cfg now request (JStr vid))
    \<and> map fst (video_requests_db (snd (generate_video cfg rt request_id now prov request s))) =
        map fst (video_requests_db s)
    \<and> (\<forall>k. k \<noteq> request_id \<longrightarrow>
          map_of (video_requests_db (snd (generate_video cfg rt request_id now prov request s))) k =
          map_of (video_requests_db s) k)"
  using assms(1)
    generate_video_success [where prov = prov and cfg = cfg and request = request, OF assms(2-5)]
  by (simp add: map_of_dict_set keys_dict_set_present)

theorem insert_replaces_existing_record_witness:
  "map_of (video_requests_db demo_state) ''r1'' = Some demo_record
   \<and> service_configured demo_config
   \<and> map_of (video_requests_db (snd (generate_video demo_config strict_runtime ''r1'' ''t1''
        (stub (generated_body ''v999'')) demo_request demo_state))) ''r1'' =
      Some (new_record demo_config ''t1'' demo_request (JStr ''v999''))
   \<and> map fst (video_requests_db (snd (generate_video demo_config strict_runtime ''r1'' ''t1''
        (stub (generated_body ''v999'')) demo_request demo_state))) = [''r1'']"
proof -
  have o: "map_of (video_requests_db demo_state) ''r1'' = Some demo_record"
    by (simp add: demo_state_def)
  have c: "service_configured demo_config"
    by (simp add: service_configured_def demo_config_def)
  have p: "stub (generated_body ''v999'') (service_generate_call demo_config demo_request) =
      Responds 200 [] (Decoded (JObj [(''data'', JObj [(''video_id'', JStr ''v999'')])]))"
    by (simp add: stub_def generated_body_def)
  have k: "map fst (video_requests_db demo_state) = [''r1'']"
    by (simp add: demo_state_def)
  show ?thesis
    using o c k
      insert_replaces_existing_record [where prov = "stub (generated_body ''v999'')"
        and cfg = demo_config and request = demo_request and s = demo_state
        and request_id = "''r1''" and d = "[(''video_id'', JStr ''v999'')]" and vid = "''v999''"
        and rt = strict_runtime and now = "''t1''", OF o c p]
    by simp
qed

text \<open>
  The claim as stated fails: with \<open>r1\<close> already a key, a generation served with the
  identifier \<open>r1\<close> succeeds, and the record under \<open>r1\<close> has the new video id.
\<close>

theorem insert_duplicate_key_counterexample:
  "map_of (video_requests_db demo_state) ''r1'' = Some demo_record
   \<and> rec_video_id demo_record = JStr ''v123''
   \<and> generate_video demo_config strict_runtime ''r1'' ''t1'' (stub (generated_body ''v999''))
        demo_request demo_state =
      (Inr \<lparr> gen_success = True,
              gen_message = ''Video generation initiated successfully'',
              gen_request_id = ''r1'',
              gen_video_id = Some ''v999'',
              gen_estimated_time = Some ''2-5 minutes'' \<rparr>,
       \<lparr> video_requests_db = [(''r1'', demo_record\<lparr>rec_video_id := JStr ''v999'', rec_created_at := ''t1''\<rparr>)],
         provider_calls = [GenerateCall ''tpl'' demo_request] \<rparr>)"
  by (simp add: generate_video_def service_configured_def demo_config_def stub_def
      generated_body_def data_field_def generation_response_def demo_state_def demo_record_def
      new_record_def service_generate_call_def py_or_def demo_request_def)

subsection \<open>Resolving the target of a retrieval\<close>

lemma retrieve_video_calls_provider:
  assumes "service_configured cfg"
    and "resolve_video rq (video_requests_db s) = Inr (video_id, rid)"
  shows "provider_calls (snd (retrieve_video cfg rt now prov rq s)) =
      provider_calls s @ [StatusCall video_id]"
  using assms
  by (auto simp: retrieve_video_def Let_def split: sum.splits option.splits prod.splits)

lemma retrieve_video_unresolved:
  assumes "service_configured cfg"
    and "resolve_video rq (video_requests_db s) = Inl e"
  shows "retrieve_video cfg rt now prov rq s = (Inl e, s)"
  using assms by (simp add: retrieve_video_def)

text \<open>
  Claim C5, as the code has it. The handler tests \<open>request.request_id\<close> and
  \<open>request.video_id\<close> for truth, so an empty string counts as not supplied. With the
  service configured: when neither is supplied as a non-empty string the call fails with
  status 400; a non-empty \<open>request_id\<close> takes precedence: absent from the registry it
  fails with status 404 and the state, provider log included, is as before; present, the
  provider is asked for the video id of its record, whatever \<open>video_id\<close> the request
  carries; with no \<open>request_id\<close> and a non-empty \<open>video_id\<close> the provider is asked for
  that \<open>video_id\<close> as it is, whether or not a record has it.
\<close>

theorem retrieve_resolution:
  assumes "service_configured cfg"
  shows "(truthy (req_request_id rq) = None \<and> truthy (req_video_id rq) = None \<longrightarrow>
        retrieve_video cfg rt now prov rq s =
          (Inl (HTTPException 400 (Text ''Either request_id or video_id must be provided'')), s))
    \<and> (\<forall>rid. req_request_id rq = Some rid \<and> rid \<noteq> [] \<and> map_of (video_requests_db s) rid = None \<longrightarrow>
        retrieve_video cfg rt now prov rq s =
          (Inl (HTTPException 404 (Text ''Request ID not found'')), s))
    \<and> (\<forall>rid r. req_request_id rq = Some rid \<and> rid \<noteq> []
          \<and> map_of (video_requests_db s) rid = Some r \<longrightarrow>
        provider_calls (snd (retrieve_video cfg rt now prov rq s)) =
          provider_calls s @ [StatusCall (rec_video_id r)])
    \<and> (\<forall>v. truthy (req_request_id rq) = None \<and> req_video_id rq = Some v \<and> v \<noteq> [] \<longrightarrow>
        provider_calls (snd (retrieve_video cfg rt now prov rq s)) =
          provider_calls s @ [StatusCall (JStr v)])"
proof (intro conjI allI impI)
  assume "truthy (req_request_id rq) = None \<and> truthy (req_video_id rq) = None"
  then have "resolve_video rq (video_requests_db s) =
      Inl (HTTPException 400 (Text ''Either request_id or video_id must be provided''))"
    by (simp add: resolve_video_def)
  then show "retrieve_video cfg rt now prov rq s =
      (Inl (HTTPException 400 (Text ''Either request_id or video_id must be provided'')), s)"
    using assms by (rule retrieve_video_unresolved [rotated])
next
  fix rid
  assume "req_request_id rq = Some rid \<and> rid \<noteq> [] \<and> map_of (video_requests_db s) rid = None"
  then have "resolve_video rq (video_requests_db s) =
      Inl (HTTPException 404 (Text ''Request ID not found''))"
    by (simp add: resolve_video_def)
  then show "retrieve_video cfg rt now prov rq s =
      (Inl (HTTPException 404 (Text ''Request ID not found'')), s)"
    using assms by (rule retrieve_video_unresolved [rotated])
next
  fix rid r
  assume "req_request_id rq = Some rid \<and> rid \<noteq> [] \<and> map_of (video_requests_db s) rid = Some r"
  then have "resolve_video rq (video_requests_db s) = Inr (rec_video_id r, Some rid)"
    by (simp add: resolve_video_def)
  then show "provider_calls (snd (retrieve_video cfg rt now prov rq s)) =
      provider_calls s @ [StatusCall (rec_video_id r)]"
    using assms retrieve_video_calls_provider by blast
next
  fix v
  assume "truthy (req_request_id rq) = None \<and> req_video_id rq = Some v \<and> v \<noteq> []"
  then have "\<exists>rid. resolve_video rq (video_requests_db s) = Inr (JStr v, rid)"
    by (simp add: resolve_video_def)
  then show "provider_calls (snd (retrieve_video cfg rt now prov rq s)) =
      provider_calls s @ [StatusCall (JStr v)]"
    using assms retrieve_video_calls_provider by blast
qed

theorem retrieve_resolution_witness:
  "service_configured demo_config
   \<and> retrieve_video demo_config strict_runtime ''t1'' (stub (status_body [(''status'', JStr ''processing'')]))
        \<lparr>req_request_id = None, req_video_id = None\<rparr> demo_state =
      (Inl (HTTPException 400 (Text ''Either request_id or video_id must be provided'')), demo_state)
   \<and> map_of (video_requests_db demo_state) ''r9'' = None
   \<and> retrieve_video demo_config strict_runtime ''t1'' (stub (status_body [(''status'', JStr ''processing'')]))
        \<lparr>req_request_id = Some ''r9'', req_video_id = Some ''v123''\<rparr> demo_state =
      (Inl (HTTPException 404 (Text ''Request ID not found'')), demo_state)
   \<and> map_of (video_requests_db demo_state) ''r1'' = Some demo_record
   \<and> provider_calls (snd (retrieve_video demo_config strict_runtime ''t1''
        (stub (status_body [(''status'', JStr ''processing'')]))
        \<lparr>req_request_id = Some ''r1'', req_video_id = Some ''other''\<rparr> demo_state)) =
      [StatusCall (JStr ''v123'')]
   \<and> find_request_id (JStr ''v777'') (video_requests_db demo_state) = None
   \<and> provider_calls (snd (retrieve_video demo_config strict_runtime ''t1''
        (stub (status_body [(''status'', JStr ''processing'')]))
        \<lparr>req_request_id = None, req_video_id = Some ''v777''\<rparr> demo_state)) =
      [StatusCall (JStr ''v777'')]"
proof -
  let ?p = "stub (status_body [(''status'', JStr ''processing'')])"
  have c: "service_configured demo_config"
    by (simp add: service_configured_def demo_config_def)
  have a: "map_of (video_requests_db demo_state) ''r9'' = None"
    by (simp add: demo_state_def)
  have b: "map_of (video_requests_db demo_state) ''r1'' = Some demo_record"
    by (simp add: demo_state_def)
  have v: "rec_video_id demo_record = JStr ''v123''"
    by (simp add: demo_record_def new_record_def)
  have n: "find_request_id (JStr ''v777'') (video_requests_db demo_state) = None"
    by (simp add: demo_state_def v)
  have l: "provider_calls demo_state = []"
    by (simp add: demo_state_def)
  show ?thesis
    using c a b v n l
      retrieve_resolution [OF c, of "\<lparr>req_request_id = None, req_video_id = None\<rparr>"
        strict_runtime "''t1''" ?p demo_state]
      retrieve_resolution [OF c, of "\<lparr>req_request_id = Some ''r9'', req_video_id = Some ''v123''\<rparr>"
        strict_runtime "''t1''" ?p demo_state]
      retrieve_resolution [OF c, of "\<lparr>req_request_id = Some ''r1'', req_video_id = Some ''other''\<rparr>"
        strict_runtime "''t1''" ?p demo_state]
      retrieve_resolution [OF c, of "\<lparr>req_request_id = None, req_video_id = Some ''v777''\<rparr>"
        strict_runtime "''t1''" ?p demo_state]
    by simp
qed

text \<open>
  The claim as stated fails: a request that carries the empty string as \<open>request_id\<close>, a
  key the registry does not have, and no \<open>video_id\<close>, fails with status 400, not 404.
\<close>

theorem empty_request_id_counterexample:
  "req_request_id \<lparr>req_request_id = Some [], req_video_id = None\<rparr> = Some []
   \<and> map_of (video_requests_db demo_state) [] = None
   \<and> retrieve_video demo_config strict_runtime ''t1''
        (stub (status_body [(''status'', JStr ''processing'')]))
        \<lparr>req_request_id = Some [], req_video_id = None\<rparr> demo_state =
      (Inl (HTTPException 400 (Text ''Either request_id or video_id must be provided'')),
       demo_state)"
  by (simp add: retrieve_video_def service_configured_def demo_config_def resolve_video_def
      demo_state_def)

text \<open>
  Claim C9, as the code has it. A request that carries a non-empty \<open>request_id\<close> that is
  not a key of the registry fails with status 404 whatever \<open>video_id\<close> it carries: the
  state is as before and no provider call is logged.
\<close>

theorem unknown_request_id_fails:
  assumes "service_configured cfg"
    and "rid \<noteq> []"
    and "map_of (video_requests_db s) rid = None"
  shows "retrieve_video cfg rt now prov \<lparr>req_request_id = Some rid, req_video_id = v\<rparr> s =
      (Inl (HTTPException 404 (Text ''Request ID not found'')), s)
    \<and> provider_calls (snd (retrieve_video cfg rt now prov
        \<lparr>req_request_id = Some rid, req_video_id = v\<rparr> s)) = provider_calls s"
  using assms by (simp add: retrieve_video_def resolve_video_def)

theorem unknown_request_id_fails_witness:
  "service_configured demo_config
   \<and> map_of (video_requests_db demo_state) ''r9'' = None
   \<and> find_request_id (JStr ''v123'') (video_requests_db demo_state) = Some ''r1''
   \<and> retrieve_video demo_config strict_runtime ''t1''
        (stub (status_body [(''status'', JStr ''completed'')]))
        \<lparr>req_request_id = Some ''r9'', req_video_id = Some ''v123''\<rparr> demo_state =
      (Inl (HTTPException 404 (Text ''Request ID not found'')), demo_state)"
proof -
  have c: "service_configured demo_config"
    by (simp add: service_configured_def demo_config_def)
  have a: "map_of (video_requests_db demo_state) ''r9'' = None"
    by (simp add: demo_state_def)
  have f: "find_request_id (JStr ''v123'') (video_requests_db demo_state) = Some ''r1''"
    by (simp add: demo_state_def demo_record_def new_record_def)
  have n: "''r9'' \<noteq> []"
    by simp
  show ?thesis
    using c a f unknown_request_id_fails [OF c n a, of strict_runtime "''t1''"
        "stub (status_body [(''status'', JStr ''completed'')])" "Some ''v123''"]
    by simp
qed

text \<open>
  The claim as stated fails: a request that carries the empty string as \<open>request_id\<close>,
  which is not a key, and the \<open>video_id\<close> of a record, is answered from the provider for
  that \<open>video_id\<close>, and the record is updated.
\<close>

theorem empty_request_id_falls_back_counterexample:
  "map_of (video_requests_db demo_state) [] = None
   \<and> retrieve_video demo_config strict_runtime ''t1''
        (stub (status_body [(''status'', JStr ''processing'')]))
        \<lparr>req_request_id = Some [], req_video_id = Some ''v123''\<rparr> demo_state =
      (Inr \<lparr> ret_success = True, ret_message = ''Video status: processing'',
              ret_request_id = Some ''r1'', ret_video_id = Some ''v123'',
              ret_status = Some ''processing'', ret_video_url = None,
              ret_caption_url = None, ret_thumbnail_url = None,
              ret_duration = None, ret_created_at = None \<rparr>,
       \<lparr> video_requests_db = [(''r1'', demo_record\<lparr>rec_last_checked := Some ''t1''\<rparr>)],
         provider_calls = [StatusCall (JStr ''v123'')] \<rparr>)"
  by (simp add: retrieve_video_def service_configured_def demo_config_def resolve_video_def
      demo_state_def demo_record_def new_record_def stub_def status_body_def data_field_def
      update_status_def retrieval_response_def completed_fields_def response_message_def)

subsection \<open>The retrieval response\<close>

lemma retrieve_video_success:
  assumes "retrieve_video cfg rt now prov rq s = (Inr resp, s')"
    and "resolve_video rq (video_requests_db s) = Inr (video_id, rid)"
    and "prov (StatusCall video_id) = Responds code txt (Decoded (JObj items))"
    and "map_of items ''data'' = Some (JObj d)"
    and "map_of d ''status'' = Some status"
  shows "retrieval_response rt rid video_id (JObj d) status = Inr resp"
  using assms
  by (auto simp: retrieve_video_def Let_def data_field_present
      split: if_splits sum.splits)

lemma retrieval_response_status:
  "retrieval_response rt rid video_id (JObj d) status = Inr resp \<Longrightarrow>
     opt_str rt status = Some (ret_status resp)"
  by (auto simp: retrieval_response_def split: sum.splits prod.splits option.splits)

lemma retrieval_response_completed:
  assumes "retrieval_response rt rid video_id (JObj d) (JStr ''completed'') = Inr resp"
  shows "opt_str rt (case map_of d ''video_url'' of None \<Rightarrow> JNull | Some v \<Rightarrow> v) =
        Some (ret_video_url resp)
    \<and> opt_str rt (case map_of d ''caption_url'' of None \<Rightarrow> JNull | Some v \<Rightarrow> v) =
        Some (ret_caption_url resp)
    \<and> opt_str rt (case map_of d ''thumbnail_url'' of None \<Rightarrow> JNull | Some v \<Rightarrow> v) =
        Some (ret_thumbnail_url resp)
    \<and> opt_float rt (case map_of d ''duration'' of None \<Rightarrow> JNull | Some v \<Rightarrow> v) =
        Some (ret_duration resp)
    \<and> opt_str rt (case map_of d ''created_at'' of None \<Rightarrow> JNull | Some v \<Rightarrow> v) =
        Some (ret_created_at resp)"
proof -
  have cf: "completed_fields (JObj d) (JStr ''completed'') =
      Inr (case map_of d ''video_url'' of None \<Rightarrow> JNull | Some v \<Rightarrow> v,
           case map_of d ''caption_url'' of None \<Rightarrow> JNull | Some v \<Rightarrow> v,
           case map_of d ''thumbnail_url'' of None \<Rightarrow> JNull | Some v \<Rightarrow> v,
           case map_of d ''duration'' of None \<Rightarrow> JNull | Some v \<Rightarrow> v,
           case map_of d ''created_at'' of None \<Rightarrow> JNull | Some v \<Rightarrow> v)"
    by (simp add: completed_fields_def)
  show ?thesis
    using assms unfolding retrieval_response_def cf
    by (auto split: sum.splits option.splits)
qed

lemma retrieval_response_failed:
  assumes "retrieval_response rt rid video_id (JObj d) (JStr ''failed'') = Inr resp"
  shows "ret_message resp = ''Video generation failed: '' @
      py_str rt (case map_of d ''error'' of None \<Rightarrow> JStr ''Unknown error'' | Some v \<Rightarrow> v)"
proof -
  have m: "response_message rt (JObj d) (JStr ''failed'') =
      Inr (''Video generation failed: '' @
        py_str rt (case map_of d ''error'' of None \<Rightarrow> JStr ''Unknown error'' | Some v \<Rightarrow> v))"
    by (simp add: response_message_def)
  show ?thesis
    using assms unfolding retrieval_response_def m
    by (auto split: sum.splits option.splits prod.splits)
qed

lemma retrieval_response_not_completed:
  assumes "retrieval_response rt rid video_id (JObj d) status = Inr resp"
    and "status \<noteq> JStr ''completed''"
  shows "ret_video_url resp = None \<and> ret_caption_url resp = None \<and> ret_thumbnail_url resp = None
    \<and> ret_duration resp = None \<and> ret_created_at resp = None"
proof -
  have cf: "completed_fields (JObj d) status = Inr (JNull, JNull, JNull, JNull, JNull)"
    using assms(2) by (simp add: completed_fields_def)
  show ?thesis
    using assms(1) unfolding retrieval_response_def cf
    by (auto split: sum.splits option.splits)
qed

text \<open>Concrete retrievals, evaluated.\<close>

lemma demo_resolve:
  "resolve_video (by_request_id ''r1'') (video_requests_db demo_state) =
     Inr (JStr ''v123'', Some ''r1'')"
  by (simp add: resolve_video_def by_request_id_def demo_state_def demo_record_def new_record_def)

lemma demo_retrieve_completed:
  "retrieve_video demo_config strict_runtime ''t1'' (stub (status_body completed_data))
     (by_request_id ''r1'') demo_state =
   (Inr \<lparr> ret_success = True, ret_message = ''Video status: completed'',
           ret_request_id = Some ''r1'', ret_video_id = Some ''v123'',
           ret_status = Some ''completed'',
           ret_video_url = Some ''https://cdn/v.mp4'', ret_caption_url = None,
           ret_thumbnail_url = None, ret_duration = Some 12,
           ret_created_at = Some ''2024-01-01'' \<rparr>,
    \<lparr> video_requests_db =
        [(''r1'', demo_record\<lparr>rec_status := JStr ''completed'', rec_last_checked := Some ''t1''\<rparr>)],
      provider_calls = [StatusCall (JStr ''v123'')] \<rparr>)"
  by (simp add: retrieve_video_def service_configured_def demo_config_def resolve_video_def
      by_request_id_def demo_record_def new_record_def
      stub_def status_body_def completed_data_def data_field_def demo_state_def
      update_status_def retrieval_response_def completed_fields_def response_message_def)

lemma demo_retrieve_failed:
  "retrieve_video demo_config strict_runtime ''t1'' (stub (status_body failed_data))
     (by_request_id ''r1'') demo_state =
   (Inr \<lparr> ret_success = True, ret_message = ''Video generation failed: X'',
           ret_request_id = Some ''r1'', ret_video_id = Some ''v123'',
           ret_status = Some ''failed'',
           ret_video_url = None, ret_caption_url = None,
           ret_thumbnail_url = None, ret_duration = None,
           ret_created_at = None \<rparr>,
    \<lparr> video_requests_db =
        [(''r1'', demo_record\<lparr>rec_status := JStr ''failed'', rec_last_checked := Some ''t1''\<rparr>)],
      provider_calls = [StatusCall (JStr ''v123'')] \<rparr>)"
  by (simp add: retrieve_video_def service_configured_def demo_config_def resolve_video_def
      by_request_id_def demo_record_def new_record_def
      stub_def status_body_def failed_data_def data_field_def demo_state_def
      update_status_def retrieval_response_def completed_fields_def response_message_def)

text \<open>
  Claim C6. A retrieval that succeeds on a provider body with \<open>data.status\<close>: the
  response's \<open>status\<close> is the provider's status as the response model takes it (a string
  as it is, null as \<open>None\<close>). When the status is \<open>"completed"\<close>, \<open>video_url\<close>,
  \<open>caption_url\<close>, \<open>thumbnail_url\<close>, \<open>duration\<close> and \<open>created_at\<close> are the provider's
  values as the response model takes them, an absent key read as null: a string or a
  float is carried unchanged, null and absent give \<open>None\<close>, nothing is made up. When the
  status is \<open>"failed"\<close> the message is \<open>"Video generation failed: "\<close> followed by the
  provider's \<open>error\<close> value as \<open>str()\<close> prints it (a string as it is), or by
  \<open>"Unknown error"\<close> when the key is absent.
\<close>

theorem retrieval_carries_provider_fields:
  assumes "retrieve_video cfg rt now prov rq s = (Inr resp, s')"
    and "resolve_video rq (video_requests_db s) = Inr (video_id, rid)"
    and "prov (StatusCall video_id) = Responds code txt (Decoded (JObj items))"
    and "map_of items ''data'' = Some (JObj d)"
    and "map_of d ''status'' = Some status"
  shows "opt_str rt status = Some (ret_status resp)
    \<and> (status = JStr ''completed'' \<longrightarrow>
        opt_str rt (case map_of d ''video_url'' of None \<Rightarrow> JNull | Some v \<Rightarrow> v) =
          Some (ret_video_url resp)
        \<and> opt_str rt (case map_of d ''caption_url'' of None \<Rightarrow> JNull | Some v \<Rightarrow> v) =
          Some (ret_caption_url resp)
        \<and> opt_str rt (case map_of d ''thumbnail_url'' of None \<Rightarrow> JNull | Some v \<Rightarrow> v) =
          Some (ret_thumbnail_url resp)
        \<and> opt_float rt (case map_of d ''duration'' of None \<Rightarrow> JNull | Some v \<Rightarrow> v) =
          Some (ret_duration resp)
        \<and> opt_str rt (case map_of d ''created_at'' of None \<Rightarrow> JNull | Some v \<Rightarrow> v) =
          Some (ret_created_at resp))
    \<and> (status = JStr ''failed'' \<longrightarrow>
        ret_message resp = ''Video generation failed: '' @
          py_str rt (case map_of d ''error'' of None \<Rightarrow> JStr ''Unknown error'' | Some v \<Rightarrow> v))"
proof -
  have r: "retrieval_response rt rid video_id (JObj d) status = Inr resp"
    using assms by (rule retrieve_video_success)
  show ?thesis
    using r retrieval_response_status [OF r] retrieval_response_completed
      retrieval_response_failed
    by blast
qed

theorem retrieval_carries_provider_fields_witness:
  "resolve_video (by_request_id ''r1'') (video_requests_db demo_state) =
     Inr (JStr ''v123'', Some ''r1'')
   \<and> fst (retrieve_video demo_config strict_runtime ''t1'' (stub (status_body completed_data))
        (by_request_id ''r1'') demo_state) =
      Inr \<lparr> ret_success = True, ret_message = ''Video status: completed'',
            ret_request_id = Some ''r1'', ret_video_id = Some ''v123'',
            ret_status = Some ''completed'',
            ret_video_url = Some ''https://cdn/v.mp4'', ret_caption_url = None,
            ret_thumbnail_url = None, ret_duration = Some 12,
            ret_created_at = Some ''2024-01-01'' \<rparr>
   \<and> map_of completed_data ''video_url'' = Some (JStr ''https://cdn/v.mp4'')
   \<and> map_of completed_data ''caption_url'' = Some JNull
   \<and> map_of completed_data ''thumbnail_url'' = None
   \<and> map_of completed_data ''duration'' = Some (JFloat 12)
   \<and> fst (retrieve_video demo_config strict_runtime ''t1'' (stub (status_body failed_data))
        (by_request_id ''r1'') demo_state) =
      Inr \<lparr> ret_success = True, ret_message = ''Video generation failed: X'',
            ret_request_id = Some ''r1'', ret_video_id = Some ''v123'',
            ret_status = Some ''failed'',
            ret_video_url = None, ret_caption_url = None,
            ret_thumbnail_url = None, ret_duration = None,
            ret_created_at = None \<rparr>
   \<and> map_of failed_data ''error'' = Some (JStr ''X'')"
proof -
  have pc: "stub (status_body completed_data) (StatusCall (JStr ''v123'')) =
      Responds 200 [] (Decoded (JObj [(''data'', JObj completed_data)]))"
    by (simp add: stub_def status_body_def)
  have pf: "stub (status_body failed_data) (StatusCall (JStr ''v123'')) =
      Responds 200 [] (Decoded (JObj [(''data'', JObj failed_data)]))"
    by (simp add: stub_def status_body_def)
  have dc: "map_of [(''data'', JObj completed_data)] ''data'' = Some (JObj completed_data)"
    by simp
  have df: "map_of [(''data'', JObj failed_data)] ''data'' = Some (JObj failed_data)"
    by simp
  have sc: "map_of completed_data ''status'' = Some (JStr ''completed'')"
    by (simp add: completed_data_def)
  have sf: "map_of failed_data ''status'' = Some (JStr ''failed'')"
    by (simp add: failed_data_def)
  note c = retrieval_carries_provider_fields [OF demo_retrieve_completed demo_resolve pc dc sc]
  note f = retrieval_carries_provider_fields [OF demo_retrieve_failed demo_resolve pf df sf]
  show ?thesis
    using c f demo_resolve demo_retrieve_completed demo_retrieve_failed
    by (simp add: completed_data_def failed_data_def)
qed

lemma demo_retrieve_processing:
  "retrieve_video demo_config strict_runtime ''t1'' (stub (status_body processing_data))
     (by_request_id ''r1'') demo_state =
   (Inr \<lparr> ret_success = True, ret_message = ''Video status: processing'',
           ret_request_id = Some ''r1'', ret_video_id = Some ''v123'',
           ret_status = Some ''processing'',
           ret_video_url = None, ret_caption_url = None,
           ret_thumbnail_url = None, ret_duration = None,
           ret_created_at = None \<rparr>,
    \<lparr> video_requests_db =
        [(''r1'', demo_record\<lparr>rec_status := JStr ''processing'', rec_last_checked := Some ''t1''\<rparr>)],
      provider_calls = [StatusCall (JStr ''v123'')] \<rparr>)"
  by (simp add: retrieve_video_def service_configured_def demo_config_def resolve_video_def
      by_request_id_def demo_record_def new_record_def
      stub_def status_body_def processing_data_def data_field_def demo_state_def
      update_status_def retrieval_response_def completed_fields_def response_message_def)

text \<open>
  Claim C10. A retrieval that succeeds on a provider body whose \<open>data.status\<close> is
  anything but the string \<open>"completed"\<close>: \<open>video_url\<close>, \<open>caption_url\<close>,
  \<open>thumbnail_url\<close>, \<open>duration\<close> and \<open>created_at\<close> of the response are all \<open>None\<close>,
  whatever the body holds under these keys.
\<close>

theorem other_status_has_no_urls:
  assumes "retrieve_video cfg rt now prov rq s = (Inr resp, s')"
    and "resolve_video rq (video_requests_db s) = Inr (video_id, rid)"
    and "prov (StatusCall video_id) = Responds code txt (Decoded (JObj items))"
    and "map_of items ''data'' = Some (JObj d)"
    and "map_of d ''status'' = Some status"
    and "status \<noteq> JStr ''completed''"
  shows "ret_video_url resp = None \<and> ret_caption_url resp = None
    \<and> ret_thumbnail_url resp = None \<and> ret_duration resp = None \<and> ret_created_at resp = None"
proof -
  have "retrieval_response rt rid video_id (JObj d) status = Inr resp"
    using assms(1-5) by (rule retrieve_video_success)
  then show ?thesis
    using assms(6) by (rule retrieval_response_not_completed)
qed

theorem other_status_has_no_urls_witness:
  "map_of processing_data ''status'' = Some (JStr ''processing'')
   \<and> JStr ''processing'' \<noteq> JStr ''completed''
   \<and> map_of processing_data ''video_url'' = Some (JStr ''https://cdn/v.mp4'')
   \<and> fst (retrieve_video demo_config strict_runtime ''t1'' (stub (status_body processing_data))
        (by_request_id ''r1'') demo_state) =
      Inr \<lparr> ret_success = True, ret_message = ''Video status: processing'',
            ret_request_id = Some ''r1'', ret_video_id = Some ''v123'',
            ret_status = Some ''processing'',
            ret_video_url = None, ret_caption_url = None,
            ret_thumbnail_url = None, ret_duration = None,
            ret_created_at = None \<rparr>"
proof -
  have p: "stub (status_body processing_data) (StatusCall (JStr ''v123'')) =
      Responds 200 [] (Decoded (JObj [(''data'', JObj processing_data)]))"
    by (simp add: stub_def status_body_def)
  have d: "map_of [(''data'', JObj processing_data)] ''data'' = Some (JObj processing_data)"
    by simp
  have st: "map_of processing_data ''status'' = Some (JStr ''processing'')"
    by (simp add: processing_data_def)
  have n: "JStr ''processing'' \<noteq> JStr ''completed''"
    by simp
  note w = other_status_has_no_urls [OF demo_retrieve_processing demo_resolve p d st n]
  show ?thesis
    using w st n demo_retrieve_processing by (simp add: processing_data_def)
qed

subsection \<open>Error responses\<close>

lemma retrieve_video_error_http:
  "fst (retrieve_video cfg rt now prov rq s) = Inl e \<Longrightarrow> \<exists>code d. e = HTTPException code d"
proof -
  have r: "\<And>x. resolve_video rq (video_requests_db s) = Inl x \<Longrightarrow> \<exists>code d. x = HTTPException code d"
    by (auto simp: resolve_video_def split: option.splits)
  assume "fst (retrieve_video cfg rt now prov rq s) = Inl e"
  then show ?thesis
    using endpoint_except_http r
    by (fastforce simp: retrieve_video_def Let_def
        split: if_splits sum.splits option.splits prod.splits)
qed

lemma get_request_details_error_http:
  "get_request_details k s = Inl e \<Longrightarrow> \<exists>code d. e = HTTPException code d"
  by (auto simp: get_request_details_def split: option.splits)

text \<open>
  Claim C8, as the code has it. Every exception that a handler of \<open>/generate\<close>,
  \<open>/retrieve\<close> or \<open>/requests/{request_id}\<close> raises is an \<open>HTTPException\<close>; the only other
  error of these routes is the \<open>RequestValidationError\<close> of a request that the request
  model of \<open>/generate\<close> or of \<open>/retrieve\<close> rejects, and every rejected request gets it,
  with the state unchanged. An \<open>HTTPException\<close> is answered with its status code and a
  body of four keys: \<open>success\<close> false, \<open>message\<close> the exception's detail, \<open>status_code\<close>,
  and \<open>platform\<close> \<open>"Render"\<close>. Any other exception that is not a validation error is
  answered 500 with the same four keys and the message \<open>"Internal server error"\<close>. A
  validation error is answered 422 with a body whose only key is \<open>detail\<close>.
\<close>

theorem error_responses_shape:
  "(fst (app_post_generate cfg rt request_id now prov body s) = Inl e \<longrightarrow>
      (e = Error RequestValidationError
        \<and> (parse_generation_request rt body = None
            \<or> (\<exists>request. parse_generation_request rt body = Some request
                  \<and> \<not> script_text_valid request)))
      \<or> (\<exists>code d. e = HTTPException code d))
   \<and> (fst (app_post_retrieve cfg rt now prov body' s) = Inl e' \<longrightarrow>
      (e' = Error RequestValidationError \<and> parse_retrieval_request rt body' = None)
      \<or> (\<exists>code d. e' = HTTPException code d))
   \<and> (get_request_details k s = Inl e'' \<longrightarrow> (\<exists>code d. e'' = HTTPException code d))
   \<and> (parse_generation_request rt body = None \<longrightarrow>
        app_post_generate cfg rt request_id now prov body s = (Inl (Error RequestValidationError), s))
   \<and> (parse_retrieval_request rt body' = None \<longrightarrow>
        app_post_retrieve cfg rt now prov body' s = (Inl (Error RequestValidationError), s))
   \<and> respond (HTTPException status_code d) =
        (status_code,
         [(''success'', FBool False), (''message'', FDetail d),
          (''status_code'', FInt status_code), (''platform'', FStr ''Render'')])
   \<and> (x \<noteq> RequestValidationError \<longrightarrow>
        respond (Error x) =
          (500,
           [(''success'', FBool False), (''message'', FDetail (Text ''Internal server error'')),
            (''status_code'', FInt 500), (''platform'', FStr ''Render'')]))
   \<and> respond (Error RequestValidationError) = (422, [(''detail'', FErrors)])"
proof (intro conjI impI)
  assume a: "fst (app_post_generate cfg rt request_id now prov body s) = Inl e"
  show "(e = Error RequestValidationError
        \<and> (parse_generation_request rt body = None
            \<or> (\<exists>request. parse_generation_request rt body = Some request
                  \<and> \<not> script_text_valid request)))
      \<or> (\<exists>code d. e = HTTPException code d)"
  proof (cases "parse_generation_request rt body")
    case None
    then show ?thesis
      using a by (simp add: app_post_generate_def)
  next
    case (Some request)
    show ?thesis
    proof (cases "script_text_valid request")
      case True
      then show ?thesis
        using a Some generate_video_error_http [of cfg rt request_id now prov request s e]
        by (simp add: app_post_generate_def post_generate_def)
    next
      case False
      then show ?thesis
        using a Some by (simp add: app_post_generate_def post_generate_def)
    qed
  qed
next
  assume a: "fst (app_post_retrieve cfg rt now prov body' s) = Inl e'"
  show "(e' = Error RequestValidationError \<and> parse_retrieval_request rt body' = None)
      \<or> (\<exists>code d. e' = HTTPException code d)"
  proof (cases "parse_retrieval_request rt body'")
    case None
    then show ?thesis
      using a by (simp add: app_post_retrieve_def)
  next
    case (Some rq)
    then show ?thesis
      using a retrieve_video_error_http [of cfg rt now prov rq s e']
      by (simp add: app_post_retrieve_def)
  qed
next
  assume "get_request_details k s = Inl e''"
  then show "\<exists>code d. e'' = HTTPException code d"
    by (rule get_request_details_error_http)
next
  assume "parse_generation_request rt body = None"
  then show "app_post_generate cfg rt request_id now prov body s =
      (Inl (Error RequestValidationError), s)"
    by (simp add: app_post_generate_def)
next
  assume "parse_retrieval_request rt body' = None"
  then show "app_post_retrieve cfg rt now prov body' s = (Inl (Error RequestValidationError), s)"
    by (simp add: app_post_retrieve_def)
next
  show "respond (HTTPException status_code d) =
        (status_code,
         [(''success'', FBool False), (''message'', FDetail d),
          (''status_code'', FInt status_code), (''platform'', FStr ''Render'')])"
    by (simp add: http_exception_handler_def)
next
  assume "x \<noteq> RequestValidationError"
  then show "respond (Error x) =
          (500,
           [(''success'', FBool False), (''message'', FDetail (Text ''Internal server error'')),
            (''status_code'', FInt 500), (''platform'', FStr ''Render'')])"
    by (cases x) (simp_all add: general_exception_handler_def)
next
  show "respond (Error RequestValidationError) = (422, [(''detail'', FErrors)])"
    by (simp add: request_validation_exception_handler_def)
qed

theorem error_responses_shape_witness:
  "parse_generation_request strict_runtime None = None
   \<and> app_post_generate demo_config strict_runtime ''r2'' ''t1'' (stub (status_body processing_data))
        None demo_state = (Inl (Error RequestValidationError), demo_state)
   \<and> fst (app_post_generate demo_config strict_runtime ''r2'' ''t1''
        (stub (status_body processing_data)) empty_script_body demo_state) =
      Inl (Error RequestValidationError)
   \<and> parse_retrieval_request strict_runtime wrong_type_body = None
   \<and> app_post_retrieve demo_config strict_runtime ''t1'' (stub (status_body processing_data))
        wrong_type_body demo_state = (Inl (Error RequestValidationError), demo_state)
   \<and> fst (app_post_retrieve demo_config strict_runtime ''t1'' (stub (status_body processing_data))
        (Some (JObj [])) demo_state) =
      Inl (HTTPException 400 (Text ''Either request_id or video_id must be provided''))
   \<and> get_request_details ''r9'' demo_state = Inl (HTTPException 404 (Text ''Request not found''))
   \<and> respond (HTTPException 404 (Text ''Request not found'')) =
        (404,
         [(''success'', FBool False), (''message'', FDetail (Text ''Request not found'')),
          (''status_code'', FInt 404), (''platform'', FStr ''Render'')])
   \<and> TypeError \<noteq> RequestValidationError
   \<and> respond (Error TypeError) =
        (500,
         [(''success'', FBool False), (''message'', FDetail (Text ''Internal server error'')),
          (''status_code'', FInt 500), (''platform'', FStr ''Render'')])"
proof -
  let ?p = "stub (status_body processing_data)"
  have pg: "parse_generation_request strict_runtime None = None"
    by (simp add: parse_generation_request_def)
  have pe: "parse_generation_request strict_runtime empty_script_body =
      Some \<lparr> script_text = [], template_id = None, use_captions = Some False,
             avatar_id = Some ''283a8bced1f841c7a9292a9212019165'',
             voice_id = Some ''fc3a1b6d218246d39ff5199ab147d6ee'',
             background_url =
               Some ''https://static.heygen.ai/tmp_resource/7fba946a-b927-4bc9-b754-84e28c5546da'',
             title = Some ''Render_API_Video'', width = Some 1280, height = Some 720 \<rparr>"
    by (simp add: parse_generation_request_def empty_script_body_def body_field_def)
  have ge: "fst (app_post_generate demo_config strict_runtime ''r2'' ''t1'' ?p
        empty_script_body demo_state) = Inl (Error RequestValidationError)"
    by (simp add: app_post_generate_def pe post_generate_def script_text_valid_def)
  have pr: "parse_retrieval_request strict_runtime wrong_type_body = None"
    by (simp add: parse_retrieval_request_def wrong_type_body_def body_field_def
        strict_runtime_def)
  have po: "parse_retrieval_request strict_runtime (Some (JObj [])) =
      Some \<lparr>req_request_id = None, req_video_id = None\<rparr>"
    by (simp add: parse_retrieval_request_def body_field_def)
  have ro: "fst (app_post_retrieve demo_config strict_runtime ''t1'' ?p (Some (JObj [])) demo_state) =
      Inl (HTTPException 400 (Text ''Either request_id or video_id must be provided''))"
    by (simp add: app_post_retrieve_def po retrieve_video_def service_configured_def
        demo_config_def resolve_video_def)
  have k: "get_request_details ''r9'' demo_state = Inl (HTTPException 404 (Text ''Request not found''))"
    by (simp add: get_request_details_def demo_state_def)
  have n: "TypeError \<noteq> RequestValidationError"
    by simp
  note a = error_responses_shape [where cfg = demo_config and rt = strict_runtime
      and request_id = "''r2''" and now = "''t1''" and prov = ?p
      and body = None and s = demo_state and e = "Error RequestValidationError"
      and body' = wrong_type_body and e' = "Error RequestValidationError"
      and k = "''r9''" and e'' = "HTTPException 404 (Text ''Request not found'')"
      and status_code = 404 and d = "Text ''Request not found''" and x = TypeError]
  note b = error_responses_shape [where cfg = demo_config and rt = strict_runtime
      and request_id = "''r2''" and now = "''t1''" and prov = ?p
      and body = empty_script_body and s = demo_state and e = "Error RequestValidationError"
      and body' = "Some (JObj [])"
      and e' = "HTTPException 400 (Text ''Either request_id or video_id must be provided'')"
      and k = "''r9''" and e'' = "HTTPException 404 (Text ''Request not found'')"
      and status_code = 404 and d = "Text ''Request not found''" and x = TypeError]
  show ?thesis
    using pg ge pr ro k n a b by simp
qed

text \<open>
  The claim as stated fails: the body answered to a request that the request model
  rejects (an empty \<open>script_text\<close>, a number as \<open>request_id\<close>) has none of the three
  fields, and the body of an \<open>HTTPException\<close> has a fourth key, \<open>platform\<close>.
\<close>

theorem error_body_counterexample:
  "post_generate demo_config strict_runtime ''r2'' ''t1'' (stub (generated_body ''v999''))
      (demo_request\<lparr>script_text := []\<rparr>) demo_state = (Inl (Error RequestValidationError), demo_state)
   \<and> app_post_retrieve demo_config strict_runtime ''t1'' (stub (status_body processing_data))
        wrong_type_body demo_state = (Inl (Error RequestValidationError), demo_state)
   \<and> respond (Error RequestValidationError) = (422, [(''detail'', FErrors)])
   \<and> map fst (snd (respond (HTTPException 404 (Text ''Request ID not found'')))) =
      [''success'', ''message'', ''status_code'', ''platform'']"
  by (simp add: post_generate_def script_text_valid_def request_validation_exception_handler_def
      http_exception_handler_def app_post_retrieve_def parse_retrieval_request_def
      wrong_type_body_def body_field_def strict_runtime_def)

subsection \<open>Records over sequences of requests\<close>

lemma generate_video_db:
  "video_requests_db (snd (generate_video cfg rt request_id now prov request s)) = video_requests_db s
   \<or> (\<exists>v. video_requests_db (snd (generate_video cfg rt request_id now prov request s)) =
         dict_set request_id (new_record cfg now request v) (video_requests_db s))"
  by (auto simp: generate_video_def Let_def split: sum.splits option.splits prod.splits)

lemma post_generate_db:
  "video_requests_db (snd (post_generate cfg rt request_id now prov request s)) = video_requests_db s
   \<or> (\<exists>v. video_requests_db (snd (post_generate cfg rt request_id now prov request s)) =
         dict_set request_id (new_record cfg now request v) (video_requests_db s))"
  using generate_video_db [of cfg rt request_id now prov request s]
  by (simp add: post_generate_def)

lemma retrieve_video_db:
  "video_requests_db (snd (retrieve_video cfg rt now prov rq s)) = video_requests_db s
   \<or> (\<exists>q status. video_requests_db (snd (retrieve_video cfg rt now prov rq s)) =
         update_status q status now (video_requests_db s))"
  by (auto simp: retrieve_video_def Let_def split: sum.splits option.splits prod.splits)

lemma update_status_lookup:
  assumes "map_of db rid = Some r"
  shows "\<exists>r'. map_of (update_status q status now db) rid = Some r'
     \<and> r' = r\<lparr>rec_status := rec_status r', rec_last_checked := rec_last_checked r'\<rparr>"
  using assms
  by (auto simp: update_status_def map_of_dict_set split: option.splits)

lemma update_status_distinct:
  "distinct (map fst db) \<Longrightarrow> distinct (map fst (update_status q status now db))"
  by (auto simp: update_status_def distinct_dict_set split: option.splits)

lemma step_keeps_record:
  assumes "fresh_id op s"
    and "map_of (video_requests_db s) rid = Some r"
  shows "\<exists>r'. map_of (video_requests_db (step cfg rt op s)) rid = Some r'
     \<and> r' = r\<lparr>rec_status := rec_status r', rec_last_checked := rec_last_checked r'\<rparr>"
proof (cases op)
  case (PostGenerate request_id now prov request)
  then have "request_id \<noteq> rid"
    using assms by auto
  then have "map_of (video_requests_db (step cfg rt op s)) rid = Some r"
    using post_generate_db [of cfg rt request_id now prov request s] assms(2) PostGenerate
    by (auto simp: map_of_dict_set)
  then show ?thesis by simp
next
  case (PostRetrieve now prov rq)
  then show ?thesis
    using retrieve_video_db [of cfg rt now prov rq s] update_status_lookup [OF assms(2)] assms(2)
    by auto
qed (use assms in auto)

lemma step_distinct:
  assumes "distinct (map fst (video_requests_db s))"
  shows "distinct (map fst (video_requests_db (step cfg rt op s)))"
proof (cases op)
  case (PostGenerate request_id now prov request)
  then show ?thesis
    using post_generate_db [of cfg rt request_id now prov request s] assms
    by (auto simp: distinct_dict_set)
next
  case (PostRetrieve now prov rq)
  then show ?thesis
    using retrieve_video_db [of cfg rt now prov rq s] assms
    by (auto simp: update_status_distinct)
qed (use assms in auto)

lemma run_keeps_record:
  assumes "fresh_ids cfg rt ops s"
    and "map_of (video_requests_db s) rid = Some r"
  shows "\<exists>r'. map_of (video_requests_db (run cfg rt ops s)) rid = Some r'
     \<and> r' = r\<lparr>rec_status := rec_status r', rec_last_checked := rec_last_checked r'\<rparr>"
  using assms
proof (induction ops arbitrary: s r)
  case Nil
  then show ?case by simp
next
  case (Cons op ops)
  from Cons.prems have f: "fresh_id op s" and fs: "fresh_ids cfg rt ops (step cfg rt op s)"
    by simp_all
  from step_keeps_record [OF f Cons.prems(2)]
  obtain r1 where r1: "map_of (video_requests_db (step cfg rt op s)) rid = Some r1"
    and e1: "r1 = r\<lparr>rec_status := rec_status r1, rec_last_checked := rec_last_checked r1\<rparr>"
    by blast
  from Cons.IH [OF fs r1]
  obtain r' where r': "map_of (video_requests_db (run cfg rt ops (step cfg rt op s))) rid = Some r'"
    and e': "r' = r1\<lparr>rec_status := rec_status r', rec_last_checked := rec_last_checked r'\<rparr>"
    by blast
  have "r' = r\<lparr>rec_status := rec_status r', rec_last_checked := rec_last_checked r'\<rparr>"
    by (subst e', subst e1) simp
  with r' show ?case by simp
qed

lemma run_distinct:
  "distinct (map fst (video_requests_db s)) \<Longrightarrow>
     distinct (map fst (video_requests_db (run cfg rt ops s)))"
  by (induction ops arbitrary: s) (auto simp: step_distinct)

lemma demo_run:
  "video_requests_db (run demo_config strict_runtime demo_ops demo_state) =
     [(''r1'', demo_record\<lparr>rec_status := JStr ''completed'', rec_last_checked := Some ''t2''\<rparr>),
      (''r2'', new_record demo_config ''t1'' demo_request (JStr ''v999''))]"
  by (simp add: demo_ops_def post_generate_def script_text_valid_def generate_video_def
      retrieve_video_def service_configured_def demo_config_def resolve_video_def
      by_request_id_def demo_record_def new_record_def service_generate_call_def py_or_def
      generated_body_def generation_response_def demo_request_def
      stub_def status_body_def completed_data_def data_field_def demo_state_def
      update_status_def retrieval_response_def completed_fields_def response_message_def)

lemma demo_fresh: "fresh_ids demo_config strict_runtime demo_ops demo_state"
  by (simp add: demo_ops_def demo_state_def)

text \<open>
  Claim C7. Take a registry with distinct keys, a record \<open>r\<close> in it, and any sequence of
  requests (generations, retrievals, listings, lookups) in which every generation is
  served with an identifier that is not yet a key. After the sequence the record is
  still there and differs from \<open>r\<close> at most in \<open>status\<close> and \<open>last_checked\<close>: its video id,
  script text, template id, captions flag, avatar id, voice id, title and creation time
  are those of \<open>r\<close>. The keys are still distinct. A generation leaves the record as it
  is, status included: only the retrieval handler writes \<open>status\<close> and \<open>last_checked\<close>.
\<close>

theorem records_change_only_status:
  assumes "distinct (map fst (video_requests_db s))"
    and "fresh_ids cfg rt ops s"
    and "map_of (video_requests_db s) rid = Some r"
  shows "(\<exists>r'. map_of (video_requests_db (run cfg rt ops s)) rid = Some r'
        \<and> r' = r\<lparr>rec_status := rec_status r', rec_last_checked := rec_last_checked r'\<rparr>
        \<and> immutable_fields r' = immutable_fields r)
    \<and> distinct (map fst (video_requests_db (run cfg rt ops s)))
    \<and> (\<forall>request_id now prov request.
          map_of (video_requests_db s) request_id = None \<longrightarrow>
          map_of (video_requests_db
            (step cfg rt (PostGenerate request_id now prov request) s)) rid = Some r)"
proof (intro conjI allI impI)
  from run_keeps_record [OF assms(2,3)]
  obtain r' where r': "map_of (video_requests_db (run cfg rt ops s)) rid = Some r'"
    and e: "r' = r\<lparr>rec_status := rec_status r', rec_last_checked := rec_last_checked r'\<rparr>"
    by blast
  have "immutable_fields r' = immutable_fields r"
    by (subst e) (simp add: immutable_fields_def)
  with r' e show "\<exists>r'. map_of (video_requests_db (run cfg rt ops s)) rid = Some r'
        \<and> r' = r\<lparr>rec_status := rec_status r', rec_last_checked := rec_last_checked r'\<rparr>
        \<and> immutable_fields r' = immutable_fields r"
    by blast
next
  show "distinct (map fst (video_requests_db (run cfg rt ops s)))"
    using assms(1) by (rule run_distinct)
next
  fix request_id now prov request
  assume f: "map_of (video_requests_db s) request_id = None"
  then have "request_id \<noteq> rid"
    using assms(3) by auto
  then show "map_of (video_requests_db
      (step cfg rt (PostGenerate request_id now prov request) s)) rid = Some r"
    using post_generate_db [of cfg rt request_id now prov request s] assms(3)
    by (auto simp: map_of_dict_set)
qed

theorem records_change_only_status_witness:
  "distinct (map fst (video_requests_db demo_state))
   \<and> fresh_ids demo_config strict_runtime demo_ops demo_state
   \<and> map_of (video_requests_db demo_state) ''r1'' = Some demo_record
   \<and> map_of (video_requests_db (run demo_config strict_runtime demo_ops demo_state)) ''r1'' =
      Some (demo_record\<lparr>rec_status := JStr ''completed'', rec_last_checked := Some ''t2''\<rparr>)
   \<and> immutable_fields (demo_record\<lparr>rec_status := JStr ''completed'', rec_last_checked := Some ''t2''\<rparr>) =
      immutable_fields demo_record
   \<and> distinct (map fst (video_requests_db (run demo_config strict_runtime demo_ops demo_state)))"
proof -
  have d: "distinct (map fst (video_requests_db demo_state))"
    by (simp add: demo_state_def)
  have m: "map_of (video_requests_db demo_state) ''r1'' = Some demo_record"
    by (simp add: demo_state_def)
  note w = records_change_only_status [OF d demo_fresh m]
  show ?thesis
    using w d m demo_fresh by (auto simp: demo_run)
qed

end
